theory Spec2Isabelle
  imports Complex_Main
begin

section \<open>Python strings and numbers\<close>

text \<open>
  Tokens, paths and filter descriptions are Python \<open>str\<close> values, modelled as
  \<open>string\<close>: a \<open>char\<close> is a code point below 256, so lengths and slices count as
  Python's do, and text with code points from 256 on is not represented. Python's
  unbounded \<open>int\<close> is \<open>int\<close>.
\<close>

subsection \<open>\<open>str(int)\<close>\<close>

definition digit_char :: "nat \<Rightarrow> char" where
  "digit_char d =
     (if d = 0 then CHR ''0'' else if d = 1 then CHR ''1'' else if d = 2 then CHR ''2''
      else if d = 3 then CHR ''3'' else if d = 4 then CHR ''4'' else if d = 5 then CHR ''5''
      else if d = 6 then CHR ''6'' else if d = 7 then CHR ''7'' else if d = 8 then CHR ''8''
      else CHR ''9'')"

fun str_nat :: "nat \<Rightarrow> string" where
  "str_nat n = (if n < 10 then [digit_char n] else str_nat (n div 10) @ [digit_char (n mod 10)])"

declare str_nat.simps [simp del]

definition str_int :: "int \<Rightarrow> string" where
  "str_int i = (if i < 0 then CHR ''-'' # str_nat (nat (- i)) else str_nat (nat i))"

subsection \<open>\<open>str.rstrip\<close>, \<open>str.lstrip\<close>, \<open>str.join\<close>\<close>

definition rstrip :: "string \<Rightarrow> string \<Rightarrow> string" where
  "rstrip chars s = rev (dropWhile (\<lambda>c. c \<in> set chars) (rev s))"

definition lstrip :: "string \<Rightarrow> string \<Rightarrow> string" where
  "lstrip chars s = dropWhile (\<lambda>c. c \<in> set chars) s"

fun join :: "string \<Rightarrow> string list \<Rightarrow> string" where
  "join sep [] = []"
| "join sep [x] = x"
| "join sep (x # y # ys) = x @ sep @ join sep (y # ys)"

subsection \<open>\<open>float\<close>\<close>

text \<open>
  A Python \<open>float\<close> is an IEEE double: a sign, a mantissa and a binary exponent, an
  infinity, or NaN. \<open>Finite neg m e\<close> stands for \<open>(-1)^neg * m * 2^e\<close>, so every double
  (both zeros included) is a value of the type and all arithmetic on it below is exact
  integer arithmetic.
\<close>

datatype pyfloat = Finite bool nat int | Infinity bool | NaN

fun isfinite :: "pyfloat \<Rightarrow> bool" where
  "isfinite (Finite neg m e) = True"
| "isfinite (Infinity neg) = False"
| "isfinite NaN = False"

text \<open>
  Comparison of two finite values: both mantissas are scaled to the smaller exponent and
  compared as signed integers. Any comparison with NaN is false, as in IEEE arithmetic.
\<close>

definition signed_scaled :: "bool \<Rightarrow> nat \<Rightarrow> int \<Rightarrow> int \<Rightarrow> int" where
  "signed_scaled neg m e e0 = (if neg then - 1 else 1) * int m * 2 ^ nat (e - e0)"

fun float_lt :: "pyfloat \<Rightarrow> pyfloat \<Rightarrow> bool" where
  "float_lt (Finite n1 m1 e1) (Finite n2 m2 e2) =
     (signed_scaled n1 m1 e1 (min e1 e2) < signed_scaled n2 m2 e2 (min e1 e2))"
| "float_lt (Finite n1 m1 e1) (Infinity neg) = (\<not> neg)"
| "float_lt (Infinity neg) (Finite n2 m2 e2) = neg"
| "float_lt (Infinity neg1) (Infinity neg2) = (neg1 \<and> \<not> neg2)"
| "float_lt NaN y = False"
| "float_lt x NaN = False"

definition float_gt :: "pyfloat \<Rightarrow> pyfloat \<Rightarrow> bool" where
  "float_gt x y = float_lt y x"

text \<open>The real number a finite float stands for.\<close>

definition finite_value :: "bool \<Rightarrow> nat \<Rightarrow> int \<Rightarrow> real" where
  "finite_value neg m e = (if neg then - 1 else 1) * real m * 2 powr real_of_int e"

text \<open>
  \<open>f"{value:.3f}"\<close>: the value is rounded to the nearest multiple of \<open>1/1000\<close> (ties to
  even, on the exact binary value) and printed with its sign, the integer part, a point
  and three digits. A negative value that rounds to zero keeps its sign.
\<close>

definition round_half_even_div :: "nat \<Rightarrow> nat \<Rightarrow> nat" where
  "round_half_even_div a d =
     (let q = a div d; r = a mod d
      in if d < 2 * r \<or> (2 * r = d \<and> odd q) then q + 1 else q)"

definition thousandths :: "nat \<Rightarrow> int \<Rightarrow> nat" where
  "thousandths m e =
     (if 0 \<le> e then m * 1000 * 2 ^ nat e
      else round_half_even_div (m * 1000) (2 ^ nat (- e)))"

definition pad3 :: "nat \<Rightarrow> string" where
  "pad3 n = [digit_char (n div 100), digit_char (n div 10 mod 10), digit_char (n mod 10)]"

fun format_3f :: "pyfloat \<Rightarrow> string" where
  "format_3f (Finite neg m e) =
     (let n = thousandths m e
      in (if neg then ''-'' else []) @ str_nat (n div 1000) @ ''.'' @ pad3 (n mod 1000))"
| "format_3f (Infinity neg) = (if neg then ''-inf'' else ''inf'')"
| "format_3f NaN = ''nan''"

subsection \<open>Values returned by \<open>json.loads\<close>\<close>

text \<open>
  A dict is an association list read with \<open>map_of\<close>: \<open>key in obj\<close> is
  \<open>map_of obj key \<noteq> None\<close> and \<open>obj.get(key)\<close> is \<open>map_of obj key\<close>, with \<open>None\<close> for
  Python's \<open>None\<close>.
\<close>

datatype json =
    JNull
  | JBool bool
  | JInt int
  | JFloat pyfloat
  | JStr string
  | JArr "json list"
  | JObj "(string \<times> json) list"

type_synonym pydict = "(string \<times> json) list"

subsection \<open>Exceptions\<close>

text \<open>
  The exception classes the code raises or lets through, each with its message. The text
  of a message produced inside a builtin or the standard library (\<open>float\<close>,
  \<open>json.loads\<close>) is left empty: no caller reads it. \<open>JSONDecodeError\<close> is a subclass
  of \<open>ValueError\<close>; a clause \<open>except json.JSONDecodeError\<close> does not catch a plain
  \<open>ValueError\<close>.
\<close>

datatype error =
    ValueError string
  | JSONDecodeError string
  | TypeError string
  | OverflowError string
  | RecursionError string
  | RuntimeError string
  | OSError string

subsection \<open>\<open>float(value)\<close>\<close>

text \<open>
  \<open>float(n)\<close> for an \<open>int\<close> rounds to the nearest double (ties to even) and raises
  \<open>OverflowError\<close> when the result would not be finite, that is from
  \<open>2^1024 - 2^970\<close> on, half way between the largest double and \<open>2^1024\<close>.
\<close>

fun bit_length :: "nat \<Rightarrow> nat" where
  "bit_length n = (if n = 0 then 0 else Suc (bit_length (n div 2)))"

declare bit_length.simps [simp del]

definition round_to_double :: "bool \<Rightarrow> nat \<Rightarrow> pyfloat" where
  "round_to_double neg a =
     (if a < 2 ^ 53 then Finite neg a 0
      else let k = bit_length a - 53
           in Finite neg (round_half_even_div a (2 ^ k)) (int k))"

definition float_of_int :: "int \<Rightarrow> error + pyfloat" where
  "float_of_int n =
     (if 2 ^ 1024 - 2 ^ 970 \<le> \<bar>n\<bar> then Inl (OverflowError ''int too large to convert to float'')
      else Inr (round_to_double (n < 0) (nat \<bar>n\<bar>)))"

text \<open>
  \<open>float(value)\<close> on what \<open>obj.get(key)\<close> returns. Parsing a \<open>str\<close> is the builtin's
  own work and is a parameter \<open>str_to_float\<close>, \<open>None\<close> when the builtin raises
  \<open>ValueError\<close>. \<open>None\<close>, lists and dicts raise \<open>TypeError\<close>; \<open>bool\<close> is an \<open>int\<close>.
\<close>

fun py_float :: "(string \<Rightarrow> pyfloat option) \<Rightarrow> json option \<Rightarrow> error + pyfloat" where
  "py_float str_to_float None = Inl (TypeError [])"
| "py_float str_to_float (Some JNull) = Inl (TypeError [])"
| "py_float str_to_float (Some (JBool b)) = Inr (Finite False (if b then 1 else 0) 0)"
| "py_float str_to_float (Some (JInt n)) = float_of_int n"
| "py_float str_to_float (Some (JFloat f)) = Inr f"
| "py_float str_to_float (Some (JStr s)) =
     (case str_to_float s of None \<Rightarrow> Inl (ValueError []) | Some f \<Rightarrow> Inr f)"
| "py_float str_to_float (Some (JArr xs)) = Inl (TypeError [])"
| "py_float str_to_float (Some (JObj kvs)) = Inl (TypeError [])"

section \<open>Loudness data (\<open>core/audio_normalizer.py\<close>)\<close>

record LoudnormTargets =
  integrated_lufs :: pyfloat
  true_peak_dbtp :: "pyfloat option"
  lra_lu :: "pyfloat option"

record LoudnormMeasurements =
  measured_I :: pyfloat
  measured_TP :: pyfloat
  measured_LRA :: pyfloat
  measured_thresh :: pyfloat
  offset :: pyfloat
  raw :: pydict

text \<open>\<open>_format_num\<close> (an Isabelle name cannot start with an underscore).\<close>

definition format_num :: "pyfloat \<Rightarrow> string" where
  "format_num v =
     (if \<not> isfinite v then ''0''
      else rstrip ''.'' (rstrip ''0'' (format_3f v)))"

text \<open>
  Two predicates for stating what validation accepts: a value that \<open>float\<close> converts to
  a finite number, and an \<open>int\<close> beyond the range of a double, where \<open>float\<close> raises
  \<open>OverflowError\<close> instead of \<open>TypeError\<close> or \<open>ValueError\<close>.
\<close>

definition finite_convertible :: "(string \<Rightarrow> pyfloat option) \<Rightarrow> json option \<Rightarrow> bool" where
  "finite_convertible str_to_float val =
     (case py_float str_to_float val of Inl e \<Rightarrow> False | Inr v \<Rightarrow> isfinite v)"

fun int_out_of_float_range :: "json option \<Rightarrow> bool" where
  "int_out_of_float_range (Some (JInt n)) = (2 ^ 1024 - 2 ^ 970 \<le> \<bar>n\<bar>)"
| "int_out_of_float_range other = False"

section \<open>Configuration\<close>

text \<open>
  \<open>TranscoderConfig\<close> is declared in \<open>config.py\<close>, outside the sources at hand; the
  records hold the attributes that \<open>codecs.py\<close> and \<open>core/audio_normalizer.py\<close> read,
  under the names they are read by. The per-codec sections \<open>cfg.h264\<close>, \<open>cfg.vp8\<close>,
  \<open>cfg.hevc\<close>, \<open>cfg.vp9\<close> and \<open>cfg.av1\<close> share one record type whose fields are the
  union of what the five builders read. \<open>usdb_target_loudness\<close> is the value of the call
  \<open>cfg.audio.get_usdb_target_loudness()\<close>. An optional cap is \<open>None\<close> or a number, and
  is taken by the builders when it is truthy, that is present and not zero.
\<close>

record VideoCodecConfig =
  preset :: string
  profile :: string
  crf :: int
  pixel_format :: string
  cpu_used :: int
  deadline :: string

record GeneralConfig =
  timeout_seconds :: int
  max_bitrate_kbps :: "int option"
  max_resolution :: "(int \<times> int) option"
  max_fps :: "int option"

record UsdbIntegrationConfig =
  use_usdb_resolution :: bool

record AudioConfig =
  audio_normalization_enabled :: bool
  audio_normalization_method :: string
  audio_normalization_use_usdb_defaults :: bool
  usdb_target_loudness :: pyfloat
  audio_normalization_target :: pyfloat
  audio_normalization_true_peak :: pyfloat
  audio_normalization_lra :: pyfloat
  mp3_quality :: int
  vorbis_quality :: pyfloat
  aac_vbr_mode :: int
  opus_bitrate_kbps :: int

record TranscoderConfig =
  h264 :: VideoCodecConfig
  vp8 :: VideoCodecConfig
  hevc :: VideoCodecConfig
  vp9 :: VideoCodecConfig
  av1 :: VideoCodecConfig
  general :: GeneralConfig
  usdb_integration :: UsdbIntegrationConfig
  audio :: AudioConfig

section \<open>Paths\<close>

text \<open>
  A \<open>Path\<close> is its string, \<open>str(path)\<close>. \<open>path.suffix\<close> follows \<open>pathlib\<close>: in the
  final component, the part from the last dot on, provided that dot is neither the first
  nor the last character. \<open>str.lower\<close> maps the 56 upper-case letters below code point
  256 (\<open>A\<close> to \<open>Z\<close>, and \<open>0xC0\<close> to \<open>0xDE\<close> without \<open>0xD7\<close>) to their lower-case forms.
\<close>

definition path_name :: "string \<Rightarrow> string" where
  "path_name p = rev (takeWhile (\<lambda>c. c \<noteq> CHR ''/'') (rev p))"

definition path_suffix :: "string \<Rightarrow> string" where
  "path_suffix p =
     (let name = path_name p;
          ext = rev (takeWhile (\<lambda>c. c \<noteq> CHR ''.'') (rev name))
      in if CHR ''.'' \<in> set name \<and> ext \<noteq> [] \<and> length ext + 1 < length name
         then CHR ''.'' # ext else [])"

definition upper_letters :: string where
  "upper_letters =
     ''ABCDEFGHIJKLMNOPQRSTUVWXYZ''
     @ [CHR 0xC0, CHR 0xC1, CHR 0xC2, CHR 0xC3, CHR 0xC4, CHR 0xC5, CHR 0xC6, CHR 0xC7,
        CHR 0xC8, CHR 0xC9, CHR 0xCA, CHR 0xCB, CHR 0xCC, CHR 0xCD, CHR 0xCE, CHR 0xCF,
        CHR 0xD0, CHR 0xD1, CHR 0xD2, CHR 0xD3, CHR 0xD4, CHR 0xD5, CHR 0xD6,
        CHR 0xD8, CHR 0xD9, CHR 0xDA, CHR 0xDB, CHR 0xDC, CHR 0xDD, CHR 0xDE]"

definition lower_letters :: string where
  "lower_letters =
     ''abcdefghijklmnopqrstuvwxyz''
     @ [CHR 0xE0, CHR 0xE1, CHR 0xE2, CHR 0xE3, CHR 0xE4, CHR 0xE5, CHR 0xE6, CHR 0xE7,
        CHR 0xE8, CHR 0xE9, CHR 0xEA, CHR 0xEB, CHR 0xEC, CHR 0xED, CHR 0xEE, CHR 0xEF,
        CHR 0xF0, CHR 0xF1, CHR 0xF2, CHR 0xF3, CHR 0xF4, CHR 0xF5, CHR 0xF6,
        CHR 0xF8, CHR 0xF9, CHR 0xFA, CHR 0xFB, CHR 0xFC, CHR 0xFD, CHR 0xFE]"

definition lower_char :: "char \<Rightarrow> char" where
  "lower_char c =
     (case map_of (zip upper_letters lower_letters) c of
        Some l \<Rightarrow> l
      | None \<Rightarrow> c)"

definition lower :: "string \<Rightarrow> string" where
  "lower s = map lower_char s"

definition quote :: string where
  "quote = [CHR 0x27]"

section \<open>Video codec handlers (\<open>codecs.py\<close>)\<close>

text \<open>
  \<open>VideoInfo\<close> comes from \<open>video_analyzer.py\<close>; the record has the attributes the
  builders read. The accelerator argument \<open>accel\<close> is \<open>None\<close> or a class whose
  \<open>get_decoder\<close> is the function held here.
\<close>

record VideoInfo =
  codec_name :: string
  has_audio :: bool
  audio_codec :: "string option"

type_synonym accelerator = "(VideoInfo \<Rightarrow> string option) option"

definition get_qsv_decoder :: "VideoInfo \<Rightarrow> string option" where
  "get_qsv_decoder video_info =
     map_of [(''h264'', ''h264_qsv''), (''hevc'', ''hevc_qsv''), (''h265'', ''hevc_qsv''),
             (''vp9'', ''vp9_qsv''), (''mpeg2video'', ''mpeg2_qsv''), (''vc1'', ''vc1_qsv''),
             (''av1'', ''av1_qsv''), (''mjpeg'', ''mjpeg_qsv'')]
       (lower (codec_name video_info))"

definition get_hw_decoder :: "VideoInfo \<Rightarrow> accelerator \<Rightarrow> string option" where
  "get_hw_decoder video_info accel =
     (case accel of None \<Rightarrow> None | Some get_decoder \<Rightarrow> get_decoder video_info)"

text \<open>
  The blocks below appear verbatim in several builders and are written once here: the
  hardware decoder selection (\<open>if decoder := ...\<close> holds for a non-empty name), the rate
  caps, the two scale filters, the frame-rate filter, the \<open>-vf\<close> argument, the two audio
  policies and the fast-start flag.
\<close>

definition hw_decoder_args :: "bool \<Rightarrow> VideoInfo \<Rightarrow> accelerator \<Rightarrow> string list" where
  "hw_decoder_args hw_decode_enabled video_info accel =
     (if hw_decode_enabled then
        (case get_hw_decoder video_info accel of
           None \<Rightarrow> []
         | Some decoder \<Rightarrow> if decoder \<noteq> [] then [''-c:v'', decoder] else [])
      else [])"

definition rate_cap_args :: "TranscoderConfig \<Rightarrow> string list" where
  "rate_cap_args cfg =
     (case max_bitrate_kbps (general cfg) of
        None \<Rightarrow> []
      | Some max_k \<Rightarrow>
          if max_k \<noteq> 0 then
            [''-maxrate'', str_int max_k @ ''k'', ''-bufsize'', str_int (max_k * 2) @ ''k'']
          else [])"

definition scale_within :: "int \<Rightarrow> int \<Rightarrow> string" where
  "scale_within max_w max_h =
     ''scale='' @ quote @ ''min(iw,'' @ str_int max_w @ '')'' @ quote @ '':'' @ quote
       @ ''min(ih,'' @ str_int max_h @ '')'' @ quote
       @ '':force_original_aspect_ratio=decrease''"

definition scale_padded :: "int \<Rightarrow> int \<Rightarrow> string" where
  "scale_padded max_w max_h =
     ''scale='' @ str_int max_w @ '':'' @ str_int max_h
       @ '':force_original_aspect_ratio=decrease,pad='' @ str_int max_w @ '':''
       @ str_int max_h @ '':(ow-iw)/2:(oh-ih)/2''"

definition fps_filters :: "TranscoderConfig \<Rightarrow> string list" where
  "fps_filters cfg =
     (case max_fps (general cfg) of
        None \<Rightarrow> []
      | Some fps \<Rightarrow> if fps \<noteq> 0 then [''fps=fps='' @ str_int fps] else [])"

text \<open>The filter list of the H.264, VP8 and HEVC builders.\<close>

definition vf_usdb :: "TranscoderConfig \<Rightarrow> string list" where
  "vf_usdb cfg =
     (case max_resolution (general cfg) of
        None \<Rightarrow> []
      | Some (max_w, max_h) \<Rightarrow>
          if use_usdb_resolution (usdb_integration cfg) then [scale_within max_w max_h]
          else [scale_padded max_w max_h])
     @ fps_filters cfg"

text \<open>The filter list of the VP9 and AV1 builders.\<close>

definition vf_within :: "TranscoderConfig \<Rightarrow> string list" where
  "vf_within cfg =
     (case max_resolution (general cfg) of
        None \<Rightarrow> []
      | Some (max_w, max_h) \<Rightarrow> [scale_within max_w max_h])
     @ fps_filters cfg"

definition vf_args :: "string list \<Rightarrow> string list" where
  "vf_args vf = (if vf \<noteq> [] then [''-vf'', join '','' vf] else [])"

definition mp4_audio_args :: "VideoInfo \<Rightarrow> string list" where
  "mp4_audio_args video_info =
     (if audio_codec video_info \<in> {Some ''aac'', Some ''mp3'', Some ''alac''}
      then [''-c:a'', ''copy'']
      else [''-c:a'', ''aac'', ''-b:a'', ''192k''])"

definition webm_audio_args :: "VideoInfo \<Rightarrow> string list" where
  "webm_audio_args video_info =
     (if audio_codec video_info \<in> {Some ''opus'', Some ''vorbis''}
      then [''-c:a'', ''copy'']
      else [''-c:a'', ''libopus'', ''-b:a'', ''160k''])"

definition faststart_args :: "string \<Rightarrow> string list" where
  "faststart_args output_path =
     (if lower (path_suffix output_path) \<in> {''.mp4'', ''.mov''}
      then [''-movflags'', ''+faststart''] else [])"

definition H264Handler_build_encode_command ::
  "string \<Rightarrow> string \<Rightarrow> VideoInfo \<Rightarrow> TranscoderConfig \<Rightarrow> accelerator \<Rightarrow> bool \<Rightarrow> bool \<Rightarrow> string list" where
  "H264Handler_build_encode_command input_path output_path video_info cfg accel
       hw_encode_enabled hw_decode_enabled =
     (let h264_cfg = h264 cfg;
          cmd = [''ffmpeg'', ''-y'', ''-hide_banner''];
          cmd = cmd @ hw_decoder_args hw_decode_enabled video_info accel;
          cmd = cmd @ [''-i'', input_path];
          cmd = (if hw_encode_enabled \<and> accel \<noteq> None then
                   cmd @ [''-c:v'', ''h264_qsv'',
                          ''-preset'', preset h264_cfg,
                          ''-profile:v'', profile h264_cfg,
                          ''-global_quality'', str_int (crf h264_cfg),
                          ''-look_ahead'', ''1'',
                          ''-pix_fmt'', ''nv12'']
                 else
                   cmd @ [''-c:v'', ''libx264'',
                          ''-preset'', preset h264_cfg,
                          ''-profile:v'', profile h264_cfg,
                          ''-crf'', str_int (crf h264_cfg),
                          ''-pix_fmt'', pixel_format h264_cfg]);
          cmd = cmd @ [''-vsync'', ''cfr''];
          cmd = cmd @ rate_cap_args cfg;
          cmd = cmd @ vf_args (vf_usdb cfg);
          cmd = (if has_audio video_info then cmd @ mp4_audio_args video_info
                 else cmd @ [''-an'']);
          cmd = cmd @ faststart_args output_path;
          cmd = cmd @ [output_path]
      in cmd)"

definition VP8Handler_build_encode_command ::
  "string \<Rightarrow> string \<Rightarrow> VideoInfo \<Rightarrow> TranscoderConfig \<Rightarrow> accelerator \<Rightarrow> bool \<Rightarrow> bool \<Rightarrow> string list" where
  "VP8Handler_build_encode_command input_path output_path video_info cfg accel
       hw_encode_enabled hw_decode_enabled =
     (let vp8_cfg = vp8 cfg;
          cmd = [''ffmpeg'', ''-y'', ''-hide_banner''];
          cmd = cmd @ hw_decoder_args hw_decode_enabled video_info accel;
          cmd = cmd @ [''-i'', input_path];
          cmd = cmd @ [''-c:v'', ''libvpx'',
                       ''-crf'', str_int (crf vp8_cfg),
                       ''-b:v'', ''0'',
                       ''-cpu-used'', str_int (cpu_used vp8_cfg),
                       ''-deadline'', ''good'',
                       ''-auto-alt-ref'', ''1'',
                       ''-lag-in-frames'', ''16'',
                       ''-pix_fmt'', ''yuv420p'',
                       ''-vsync'', ''cfr''];
          cmd = cmd @ rate_cap_args cfg;
          cmd = cmd @ vf_args (vf_usdb cfg);
          cmd = (if has_audio video_info then cmd @ webm_audio_args video_info
                 else cmd @ [''-an'']);
          cmd = cmd @ [output_path]
      in cmd)"

definition HEVCHandler_build_encode_command ::
  "string \<Rightarrow> string \<Rightarrow> VideoInfo \<Rightarrow> TranscoderConfig \<Rightarrow> accelerator \<Rightarrow> bool \<Rightarrow> bool \<Rightarrow> string list" where
  "HEVCHandler_build_encode_command input_path output_path video_info cfg accel
       hw_encode_enabled hw_decode_enabled =
     (let hevc_cfg = hevc cfg;
          cmd = [''ffmpeg'', ''-y'', ''-hide_banner''];
          cmd = cmd @ hw_decoder_args hw_decode_enabled video_info accel;
          cmd = cmd @ [''-i'', input_path];
          cmd = (if hw_encode_enabled \<and> accel \<noteq> None then
                   cmd @ [''-c:v'', ''hevc_qsv'',
                          ''-preset'', preset hevc_cfg,
                          ''-profile:v'', profile hevc_cfg,
                          ''-global_quality'', str_int (crf hevc_cfg),
                          ''-rc_mode'', ''icq'',
                          ''-pix_fmt'', ''nv12'']
                 else
                   cmd @ [''-c:v'', ''libx265'',
                          ''-preset'', preset hevc_cfg,
                          ''-profile:v'', profile hevc_cfg,
                          ''-crf'', str_int (crf hevc_cfg),
                          ''-tag:v'', ''hvc1'',
                          ''-pix_fmt'', pixel_format hevc_cfg]);
          cmd = cmd @ [''-vsync'', ''cfr''];
          cmd = cmd @ rate_cap_args cfg;
          cmd = cmd @ vf_args (vf_usdb cfg);
          cmd = (if has_audio video_info then cmd @ mp4_audio_args video_info
                 else cmd @ [''-an'']);
          cmd = cmd @ faststart_args output_path;
          cmd = cmd @ [output_path]
      in cmd)"

definition VP9Handler_build_encode_command ::
  "string \<Rightarrow> string \<Rightarrow> VideoInfo \<Rightarrow> TranscoderConfig \<Rightarrow> accelerator \<Rightarrow> bool \<Rightarrow> bool \<Rightarrow> string list" where
  "VP9Handler_build_encode_command input_path output_path video_info cfg accel
       hw_encode_enabled hw_decode_enabled =
     (let vp9_cfg = vp9 cfg;
          cmd = [''ffmpeg'', ''-y'', ''-hide_banner''];
          cmd = cmd @ hw_decoder_args hw_decode_enabled video_info accel;
          cmd = cmd @ [''-i'', input_path];
          cmd = (if hw_encode_enabled \<and> accel \<noteq> None then
                   cmd @ [''-c:v'', ''vp9_qsv'',
                          ''-global_quality'', str_int (crf vp9_cfg),
                          ''-pix_fmt'', ''nv12'']
                 else
                   cmd @ [''-c:v'', ''libvpx-vp9'',
                          ''-crf'', str_int (crf vp9_cfg),
                          ''-b:v'', ''0'',
                          ''-deadline'', deadline vp9_cfg,
                          ''-cpu-used'', str_int (cpu_used vp9_cfg),
                          ''-row-mt'', ''1'',
                          ''-tile-columns'', ''2'',
                          ''-g'', ''240'',
                          ''-pix_fmt'', ''yuv420p'']);
          cmd = cmd @ [''-vsync'', ''cfr''];
          cmd = cmd @ rate_cap_args cfg;
          cmd = cmd @ vf_args (vf_within cfg);
          cmd = (if has_audio video_info then cmd @ webm_audio_args video_info
                 else cmd @ [''-an'']);
          cmd = cmd @ [output_path]
      in cmd)"

text \<open>
  The AV1 builder asks \<open>check_encoder_available\<close> (\<open>utils.py\<close>) which encoders the
  installed ffmpeg has. The answer is no argument of the builder; it is the first
  parameter here.
\<close>

definition AV1Handler_build_encode_command ::
  "(string \<Rightarrow> bool) \<Rightarrow> string \<Rightarrow> string \<Rightarrow> VideoInfo \<Rightarrow> TranscoderConfig \<Rightarrow> accelerator
   \<Rightarrow> bool \<Rightarrow> bool \<Rightarrow> string list" where
  "AV1Handler_build_encode_command check_encoder_available input_path output_path video_info
       cfg accel hw_encode_enabled hw_decode_enabled =
     (let av1_cfg = av1 cfg;
          cmd = [''ffmpeg'', ''-y'', ''-hide_banner''];
          cmd = cmd @ hw_decoder_args hw_decode_enabled video_info accel;
          cmd = cmd @ [''-i'', input_path];
          cmd = (if hw_encode_enabled \<and> accel \<noteq> None then
                   cmd @ [''-c:v'', ''av1_qsv'',
                          ''-rc_mode'', ''icq'',
                          ''-global_quality'', str_int (crf av1_cfg),
                          ''-pix_fmt'', ''nv12'']
                 else if check_encoder_available ''libsvtav1'' then
                   cmd @ [''-c:v'', ''libsvtav1'',
                          ''-crf'', str_int (crf av1_cfg),
                          ''-preset'', str_int (cpu_used av1_cfg),
                          ''-g'', ''240'',
                          ''-pix_fmt'', ''yuv420p10le'']
                 else if check_encoder_available ''libaom-av1'' then
                   cmd @ [''-c:v'', ''libaom-av1'',
                          ''-crf'', str_int (crf av1_cfg),
                          ''-cpu-used'', str_int (cpu_used av1_cfg),
                          ''-g'', ''240'',
                          ''-pix_fmt'', ''yuv420p10le'']
                 else
                   cmd @ [''-c:v'', ''av1'']);
          cmd = cmd @ [''-vsync'', ''cfr''];
          cmd = cmd @ rate_cap_args cfg;
          cmd = cmd @ vf_args (vf_within cfg);
          cmd = (if has_audio video_info then
                   (if lower (path_suffix output_path) \<in> {''.mp4'', ''.mov''}
                    then cmd @ mp4_audio_args video_info
                    else cmd @ webm_audio_args video_info)
                 else cmd @ [''-an'']);
          cmd = cmd @ faststart_args output_path;
          cmd = cmd @ [output_path]
      in cmd)"

text \<open>
  \<open>CODEC_REGISTRY\<close> after the five \<open>@register_codec\<close> decorators have run, and the
  call of a registered handler's builder.
\<close>

datatype video_handler = H264Handler | VP8Handler | HEVCHandler | VP9Handler | AV1Handler

definition get_codec_handler :: "string \<Rightarrow> video_handler option" where
  "get_codec_handler codec =
     map_of [(''h264'', H264Handler), (''vp8'', VP8Handler), (''hevc'', HEVCHandler),
             (''vp9'', VP9Handler), (''av1'', AV1Handler)] codec"

fun video_build_encode_command ::
  "(string \<Rightarrow> bool) \<Rightarrow> video_handler \<Rightarrow> string \<Rightarrow> string \<Rightarrow> VideoInfo \<Rightarrow> TranscoderConfig
   \<Rightarrow> accelerator \<Rightarrow> bool \<Rightarrow> bool \<Rightarrow> string list" where
  "video_build_encode_command chk H264Handler i out v cfg accel hw_enc hw_dec =
     H264Handler_build_encode_command i out v cfg accel hw_enc hw_dec"
| "video_build_encode_command chk VP8Handler i out v cfg accel hw_enc hw_dec =
     VP8Handler_build_encode_command i out v cfg accel hw_enc hw_dec"
| "video_build_encode_command chk HEVCHandler i out v cfg accel hw_enc hw_dec =
     HEVCHandler_build_encode_command i out v cfg accel hw_enc hw_dec"
| "video_build_encode_command chk VP9Handler i out v cfg accel hw_enc hw_dec =
     VP9Handler_build_encode_command i out v cfg accel hw_enc hw_dec"
| "video_build_encode_command chk AV1Handler i out v cfg accel hw_enc hw_dec =
     AV1Handler_build_encode_command chk i out v cfg accel hw_enc hw_dec"

section \<open>Audio codec handlers (\<open>codecs.py\<close>)\<close>

text \<open>
  A check that passes returns \<open>Inr ()\<close>; one that raises returns the \<open>ValueError\<close>.
  \<open>str\<close> of a \<open>float\<close> (its shortest round-trip form) is the builtin's work and is the
  parameter \<open>float_str\<close> wherever a float is printed.
\<close>

definition ensure_int_in_range :: "string \<Rightarrow> int \<Rightarrow> int \<Rightarrow> int \<Rightarrow> error + unit" where
  "ensure_int_in_range param val low high =
     (if val < low \<or> val > high then
        Inl (ValueError (param @ '' must be between '' @ str_int low @ '' and ''
                          @ str_int high @ '' (got '' @ str_int val @ '')''))
      else Inr ())"

definition ensure_float_in_range ::
  "(pyfloat \<Rightarrow> string) \<Rightarrow> string \<Rightarrow> pyfloat \<Rightarrow> pyfloat \<Rightarrow> pyfloat \<Rightarrow> error + unit" where
  "ensure_float_in_range float_str param val low high =
     (if float_lt val low \<or> float_gt val high then
        Inl (ValueError (param @ '' must be between '' @ float_str low @ '' and ''
                          @ float_str high @ '' (got '' @ float_str val @ '')''))
      else Inr ())"

definition audio_common_prefix :: "string \<Rightarrow> string list" where
  "audio_common_prefix input_path =
     [''ffmpeg'', ''-y'', ''-hide_banner'', ''-i'', input_path, ''-map'', ''0:a:0?'',
      ''-vn'', ''-sn'', ''-dn'']"

definition audio_force_extension :: "string \<Rightarrow> string list \<Rightarrow> error + unit" where
  "audio_force_extension path extensions =
     (let ext = lstrip ''.'' (lower (path_suffix path))
      in if ext \<notin> set extensions then
           Inl (ValueError (''Unsupported output extension '' @ quote @ ''.'' @ ext @ quote
                             @ '' for audio codec''))
         else Inr ())"

record AudioCodecCapabilities =
  name :: string
  display_name :: string
  container :: string
  container_extensions :: "string list"

definition MP3AudioHandler_capabilities :: AudioCodecCapabilities where
  "MP3AudioHandler_capabilities =
     \<lparr>name = ''mp3'', display_name = ''MP3 (LAME)'', container = ''mp3'',
      container_extensions = [''mp3'']\<rparr>"

definition MP3AudioHandler_validate_config :: "TranscoderConfig \<Rightarrow> error + unit" where
  "MP3AudioHandler_validate_config cfg =
     ensure_int_in_range ''mp3_quality'' (mp3_quality (audio cfg)) 0 9"

definition MP3AudioHandler_build_encode_command ::
  "string \<Rightarrow> string \<Rightarrow> TranscoderConfig \<Rightarrow> bool \<Rightarrow> error + string list" where
  "MP3AudioHandler_build_encode_command input_path output_path cfg stream_copy =
     (case MP3AudioHandler_validate_config cfg of
        Inl e \<Rightarrow> Inl e
      | Inr u \<Rightarrow>
     (case audio_force_extension output_path
             (container_extensions MP3AudioHandler_capabilities) of
        Inl e \<Rightarrow> Inl e
      | Inr u \<Rightarrow>
          (let cmd = audio_common_prefix input_path;
               cmd = (if stream_copy then cmd @ [''-c:a'', ''copy'']
                      else cmd @ [''-c:a'', ''libmp3lame'',
                                  ''-q:a'', str_int (mp3_quality (audio cfg))]);
               cmd = cmd @ [output_path]
           in Inr cmd)))"

definition VorbisAudioHandler_capabilities :: AudioCodecCapabilities where
  "VorbisAudioHandler_capabilities =
     \<lparr>name = ''vorbis'', display_name = ''Ogg Vorbis'', container = ''ogg'',
      container_extensions = [''ogg'']\<rparr>"

definition VorbisAudioHandler_validate_config :: "(pyfloat \<Rightarrow> string) \<Rightarrow> TranscoderConfig \<Rightarrow> error + unit" where
  "VorbisAudioHandler_validate_config float_str cfg =
     ensure_float_in_range float_str ''vorbis_quality'' (vorbis_quality (audio cfg))
       (Finite True 1 0) (Finite False 10 0)"

definition VorbisAudioHandler_build_encode_command ::
  "(pyfloat \<Rightarrow> string) \<Rightarrow> string \<Rightarrow> string \<Rightarrow> TranscoderConfig \<Rightarrow> bool \<Rightarrow> error + string list" where
  "VorbisAudioHandler_build_encode_command float_str input_path output_path cfg stream_copy =
     (case VorbisAudioHandler_validate_config float_str cfg of
        Inl e \<Rightarrow> Inl e
      | Inr u \<Rightarrow>
     (case audio_force_extension output_path
             (container_extensions VorbisAudioHandler_capabilities) of
        Inl e \<Rightarrow> Inl e
      | Inr u \<Rightarrow>
          (let cmd = audio_common_prefix input_path;
               cmd = (if stream_copy then cmd @ [''-c:a'', ''copy'']
                      else cmd @ [''-c:a'', ''libvorbis'',
                                  ''-q:a'', float_str (vorbis_quality (audio cfg))]);
               cmd = cmd @ [output_path]
           in Inr cmd)))"

definition AACAudioHandler_capabilities :: AudioCodecCapabilities where
  "AACAudioHandler_capabilities =
     \<lparr>name = ''aac'', display_name = ''AAC (M4A)'', container = ''m4a'',
      container_extensions = [''m4a'', ''mp4'']\<rparr>"

definition AACAudioHandler_validate_config :: "TranscoderConfig \<Rightarrow> error + unit" where
  "AACAudioHandler_validate_config cfg =
     ensure_int_in_range ''aac_vbr_mode'' (aac_vbr_mode (audio cfg)) 1 5"

definition AACAudioHandler_build_encode_command ::
  "string \<Rightarrow> string \<Rightarrow> TranscoderConfig \<Rightarrow> bool \<Rightarrow> error + string list" where
  "AACAudioHandler_build_encode_command input_path output_path cfg stream_copy =
     (case AACAudioHandler_validate_config cfg of
        Inl e \<Rightarrow> Inl e
      | Inr u \<Rightarrow>
     (case audio_force_extension output_path [''m4a'', ''mp4''] of
        Inl e \<Rightarrow> Inl e
      | Inr u \<Rightarrow>
          (let cmd = audio_common_prefix input_path;
               cmd = (if stream_copy then cmd @ [''-c:a'', ''copy'']
                      else cmd @ [''-c:a'', ''aac'',
                                  ''-vbr'', str_int (aac_vbr_mode (audio cfg))]);
               cmd = (if lower (path_suffix output_path) \<in> {''.m4a'', ''.mp4'', ''.mov''}
                      then cmd @ [''-movflags'', ''+faststart''] else cmd);
               cmd = cmd @ [output_path]
           in Inr cmd)))"

definition OpusAudioHandler_capabilities :: AudioCodecCapabilities where
  "OpusAudioHandler_capabilities =
     \<lparr>name = ''opus'', display_name = ''Opus'', container = ''opus'',
      container_extensions = [''opus'']\<rparr>"

definition OpusAudioHandler_validate_config :: "TranscoderConfig \<Rightarrow> error + unit" where
  "OpusAudioHandler_validate_config cfg =
     ensure_int_in_range ''opus_bitrate_kbps'' (opus_bitrate_kbps (audio cfg)) 6 510"

definition OpusAudioHandler_build_encode_command ::
  "string \<Rightarrow> string \<Rightarrow> TranscoderConfig \<Rightarrow> bool \<Rightarrow> error + string list" where
  "OpusAudioHandler_build_encode_command input_path output_path cfg stream_copy =
     (case OpusAudioHandler_validate_config cfg of
        Inl e \<Rightarrow> Inl e
      | Inr u \<Rightarrow>
     (case audio_force_extension output_path
             (container_extensions OpusAudioHandler_capabilities) of
        Inl e \<Rightarrow> Inl e
      | Inr u \<Rightarrow>
          (let cmd = audio_common_prefix input_path;
               cmd = (if stream_copy then cmd @ [''-c:a'', ''copy'']
                      else cmd @ [''-c:a'', ''libopus'',
                                  ''-b:a'', str_int (opus_bitrate_kbps (audio cfg)) @ ''k'']);
               cmd = cmd @ [output_path]
           in Inr cmd)))"

text \<open>
  \<open>AUDIO_CODEC_REGISTRY\<close> after the four \<open>@register_audio_codec\<close> decorators have run,
  and the call of a registered handler's builder.
\<close>

datatype audio_handler = MP3AudioHandler | VorbisAudioHandler | AACAudioHandler | OpusAudioHandler

definition get_audio_codec_handler :: "string \<Rightarrow> audio_handler option" where
  "get_audio_codec_handler codec =
     map_of [(''mp3'', MP3AudioHandler), (''vorbis'', VorbisAudioHandler),
             (''aac'', AACAudioHandler), (''opus'', OpusAudioHandler)] codec"

fun audio_build_encode_command ::
  "(pyfloat \<Rightarrow> string) \<Rightarrow> audio_handler \<Rightarrow> string \<Rightarrow> string \<Rightarrow> TranscoderConfig \<Rightarrow> bool
   \<Rightarrow> error + string list" where
  "audio_build_encode_command float_str MP3AudioHandler i out cfg stream_copy =
     MP3AudioHandler_build_encode_command i out cfg stream_copy"
| "audio_build_encode_command float_str VorbisAudioHandler i out cfg stream_copy =
     VorbisAudioHandler_build_encode_command float_str i out cfg stream_copy"
| "audio_build_encode_command float_str AACAudioHandler i out cfg stream_copy =
     AACAudioHandler_build_encode_command i out cfg stream_copy"
| "audio_build_encode_command float_str OpusAudioHandler i out cfg stream_copy =
     OpusAudioHandler_build_encode_command i out cfg stream_copy"

section \<open>Measurement extraction (\<open>core/audio_normalizer.py\<close>)\<close>

text \<open>
  \<open>_is_finite_number\<close>: the \<open>except (TypeError, ValueError)\<close> clause returns \<open>False\<close>;
  any other exception of \<open>float\<close> leaves the function.
\<close>

definition is_finite_number :: "(string \<Rightarrow> pyfloat option) \<Rightarrow> json option \<Rightarrow> error + bool" where
  "is_finite_number str_to_float val =
     (case py_float str_to_float val of
        Inl (TypeError msg) \<Rightarrow> Inr False
      | Inl (ValueError msg) \<Rightarrow> Inr False
      | Inl e \<Rightarrow> Inl e
      | Inr v \<Rightarrow> Inr (isfinite v))"

text \<open>
  \<open>re.findall(r"\{[\s\S]*?\}", stderr_text)\<close>: a match starts at the next \<open>{\<close> and,
  the repetition being lazy, ends at the first \<open>}\<close> after it; the search resumes behind
  the match. The first argument is the match under construction, \<open>None\<close> outside a match.
\<close>

fun findall_blocks :: "string option \<Rightarrow> string \<Rightarrow> string list" where
  "findall_blocks None [] = []"
| "findall_blocks None (c # cs) =
     (if c = CHR ''{'' then findall_blocks (Some [c]) cs else findall_blocks None cs)"
| "findall_blocks (Some blob) [] = []"
| "findall_blocks (Some blob) (c # cs) =
     (if c = CHR ''}'' then (blob @ [c]) # findall_blocks None cs
      else findall_blocks (Some (blob @ [c])) cs)"

definition has_loudnorm_keys :: "pydict \<Rightarrow> bool" where
  "has_loudnorm_keys obj \<longleftrightarrow>
     map_of obj ''input_i'' \<noteq> None \<and> map_of obj ''input_tp'' \<noteq> None
     \<and> map_of obj ''input_lra'' \<noteq> None \<and> map_of obj ''input_thresh'' \<noteq> None"

text \<open>
  The loop of \<open>_parse_loudnorm_json\<close> over the candidates, with \<open>last_good\<close> as state.
  \<open>json.loads\<close> is the parameter \<open>loads\<close>: it returns a value or raises. The loop
  goes on after a \<open>JSONDecodeError\<close>; any other exception of \<open>json.loads\<close> (a plain
  \<open>ValueError\<close> for an integer literal of more than 4300 digits, a \<open>RecursionError\<close>)
  is not caught and leaves the function.
\<close>

fun parse_candidates ::
  "(string \<Rightarrow> error + json) \<Rightarrow> string list \<Rightarrow> pydict option \<Rightarrow> error + pydict option" where
  "parse_candidates loads [] last_good = Inr last_good"
| "parse_candidates loads (blob # candidates) last_good =
     (case loads blob of
        Inl (JSONDecodeError msg) \<Rightarrow> parse_candidates loads candidates last_good
      | Inl e \<Rightarrow> Inl e
      | Inr (JObj obj) \<Rightarrow>
          if has_loudnorm_keys obj then parse_candidates loads candidates (Some obj)
          else parse_candidates loads candidates last_good
      | Inr other \<Rightarrow> parse_candidates loads candidates last_good)"

definition parse_loudnorm_json :: "(string \<Rightarrow> error + json) \<Rightarrow> string \<Rightarrow> error + pydict" where
  "parse_loudnorm_json loads stderr_text =
     (let candidates = findall_blocks None stderr_text
      in case parse_candidates loads candidates None of
           Inl e \<Rightarrow> Inl e
         | Inr None \<Rightarrow>
             Inl (ValueError ''Could not locate loudnorm JSON output in ffmpeg stderr'')
         | Inr (Some last_good) \<Rightarrow> Inr last_good)"

text \<open>
  For comparison with the loop: the candidates that parse to a dict whose keys include
  all four measurement fields, in the order of the text, and the condition that
  \<open>json.loads\<close> raises nothing but \<open>JSONDecodeError\<close> on a candidate.
\<close>

definition qualifying_blocks :: "(string \<Rightarrow> error + json) \<Rightarrow> string list \<Rightarrow> pydict list" where
  "qualifying_blocks loads blobs =
     concat (map (\<lambda>blob. case loads blob of
                            Inr (JObj obj) \<Rightarrow> if has_loudnorm_keys obj then [obj] else []
                          | other \<Rightarrow> []) blobs)"

fun decodes_or_fails :: "error + json \<Rightarrow> bool" where
  "decodes_or_fails (Inr v) = True"
| "decodes_or_fails (Inl (JSONDecodeError msg)) = True"
| "decodes_or_fails (Inl e) = False"

text \<open>
  The list comprehension of \<open>_extract_measurements\<close> calls \<open>_is_finite_number\<close> on the
  fields in order and stops at the first call that raises.
\<close>

fun bad_fields :: "(string \<Rightarrow> pyfloat option) \<Rightarrow> (string \<times> json option) list \<Rightarrow> error + string list" where
  "bad_fields str_to_float [] = Inr []"
| "bad_fields str_to_float ((field, val) # items) =
     (case is_finite_number str_to_float val of
        Inl e \<Rightarrow> Inl e
      | Inr ok \<Rightarrow>
          (case bad_fields str_to_float items of
             Inl e \<Rightarrow> Inl e
           | Inr bad \<Rightarrow> Inr (if \<not> ok then field # bad else bad)))"

definition extract_measurements :: "(string \<Rightarrow> pyfloat option) \<Rightarrow> pydict \<Rightarrow> error + LoudnormMeasurements" where
  "extract_measurements str_to_float obj =
     (let measured_I = map_of obj ''input_i'';
          measured_TP = map_of obj ''input_tp'';
          measured_LRA = map_of obj ''input_lra'';
          measured_thresh = map_of obj ''input_thresh'';
          offset = map_of obj ''target_offset'';
          fields = [(''measured_I'', measured_I), (''measured_TP'', measured_TP),
                    (''measured_LRA'', measured_LRA), (''measured_thresh'', measured_thresh),
                    (''offset'', offset)]
      in (case bad_fields str_to_float fields of
            Inl e \<Rightarrow> Inl e
          | Inr bad \<Rightarrow>
              if bad \<noteq> [] then
                Inl (ValueError (''Invalid loudnorm measurement values: '' @ join '', '' bad))
              else
                (case py_float str_to_float measured_I of
                   Inl e \<Rightarrow> Inl e
                 | Inr v1 \<Rightarrow>
                (case py_float str_to_float measured_TP of
                   Inl e \<Rightarrow> Inl e
                 | Inr v2 \<Rightarrow>
                (case py_float str_to_float measured_LRA of
                   Inl e \<Rightarrow> Inl e
                 | Inr v3 \<Rightarrow>
                (case py_float str_to_float measured_thresh of
                   Inl e \<Rightarrow> Inl e
                 | Inr v4 \<Rightarrow>
                (case py_float str_to_float offset of
                   Inl e \<Rightarrow> Inl e
                 | Inr v5 \<Rightarrow>
                     Inr \<lparr>measured_I = v1, measured_TP = v2, measured_LRA = v3,
                          measured_thresh = v4, offset = v5, raw = obj\<rparr>)))))))"

section \<open>Pass 1 analysis (\<open>core/audio_normalizer.py\<close>)\<close>

text \<open>
  The external process is described by what it answers. Every turn of the reading loop
  consumes one \<open>read_step\<close>: the text \<open>readline()\<close> returns, what \<open>poll()\<close> would
  return (read only when the line is empty) and what \<open>time.time()\<close> would return at
  the timeout check (read only when the line is not empty). \<open>exits_on_terminate\<close> says
  whether \<open>wait(timeout=5)\<close> returns after \<open>terminate()\<close>; \<open>exit_clock\<close> is
  \<open>time.time()\<close> after the final \<open>wait()\<close>. Clock readings are exact rationals.
  A process whose steps run out keeps \<open>readline()\<close> blocked for ever.
\<close>

record read_step =
  line :: string
  poll :: "int option"
  clock :: rat

record process =
  has_stderr :: bool
  reads :: "read_step list"
  exits_on_terminate :: bool
  exit_clock :: rat

text \<open>
  What surrounds the code: \<open>subprocess.Popen\<close> on a command, \<open>json.loads\<close>,
  \<open>float\<close> on a \<open>str\<close>, and the first reading of \<open>time.time()\<close>.
\<close>

record environment =
  popen :: "string list \<Rightarrow> error + process"
  loads :: "string \<Rightarrow> error + json"
  str_to_float :: "string \<Rightarrow> pyfloat option"
  start_clock :: rat

text \<open>Calls made on the process and on the performance cache, in order.\<close>

datatype effect =
    Terminate
  | WaitTimeout nat
  | Kill
  | Wait
  | RecordPerformance json rat

datatype loop_result = Exited int "string list" | TimedOut "string list"

text \<open>
  The \<open>while True\<close> loop; the parameter \<open>timeout_seconds\<close> is written
  \<open>timeout_secs\<close>, apart from the configuration field. \<open>None\<close>: the loop does not end. Progress messages go to the
  logger only and are left out, as is every other call on \<open>slog\<close>.
\<close>

fun read_loop :: "rat \<Rightarrow> int \<Rightarrow> read_step list \<Rightarrow> string list \<Rightarrow> loop_result option" where
  "read_loop start_time timeout_secs [] stderr_lines = None"
| "read_loop start_time timeout_secs (s # steps) stderr_lines =
     (if line s = [] then
        (case poll s of
           Some returncode \<Rightarrow> Some (Exited returncode stderr_lines)
         | None \<Rightarrow> read_loop start_time timeout_secs steps stderr_lines)
      else
        (let stderr_lines = stderr_lines @ [line s]
         in if clock s - start_time > of_int timeout_secs then Some (TimedOut stderr_lines)
            else read_loop start_time timeout_secs steps stderr_lines))"

text \<open>
  Two conditions on a step, for stating what the loop does: \<open>passes\<close> holds when the
  loop goes on to the next step (an empty read from a running process, or a line read
  within the bound); \<open>late\<close> holds for a line read after the bound. \<open>lines_of\<close> are the
  texts the loop appends.
\<close>

definition passes :: "rat \<Rightarrow> int \<Rightarrow> read_step \<Rightarrow> bool" where
  "passes start_time timeout_secs s \<longleftrightarrow>
     (if line s = [] then poll s = None else clock s - start_time \<le> of_int timeout_secs)"

definition late :: "rat \<Rightarrow> int \<Rightarrow> read_step \<Rightarrow> bool" where
  "late start_time timeout_secs s \<longleftrightarrow>
     line s \<noteq> [] \<and> of_int timeout_secs < clock s - start_time"

definition lines_of :: "read_step list \<Rightarrow> string list" where
  "lines_of steps = filter (\<lambda>l. l \<noteq> []) (map line steps)"

text \<open>
  \<open>str.strip()\<close> removes white space at both ends: the twelve code points below 256
  for which \<open>str.isspace\<close> holds (Python's other white space starts at \<open>U+1680\<close>).
  \<open>text[-1000:]\<close> keeps the last 1000 characters.
\<close>

definition whitespace :: string where
  "whitespace = [CHR '' '', CHR 0x09, CHR 0x0A, CHR 0x0B, CHR 0x0C, CHR 0x0D,
                 CHR 0x1C, CHR 0x1D, CHR 0x1E, CHR 0x1F, CHR 0x85, CHR 0xA0]"

definition strip :: "string \<Rightarrow> string" where
  "strip s = lstrip whitespace (rstrip whitespace s)"

definition last_chars :: "nat \<Rightarrow> string \<Rightarrow> string" where
  "last_chars n s = drop (length s - n) s"

text \<open>
  \<open>duration and isinstance(duration, (int, float)) and duration > 5\<close> on
  \<open>obj.get("duration")\<close>; \<open>bool\<close> is an \<open>int\<close> not greater than 5.
\<close>

fun duration_over_5 :: "json option \<Rightarrow> bool" where
  "duration_over_5 (Some (JInt n)) = (5 < n)"
| "duration_over_5 (Some (JFloat f)) = float_gt f (Finite False 5 0)"
| "duration_over_5 other = False"

definition analyze_loudnorm_two_pass ::
  "environment \<Rightarrow> string \<Rightarrow> LoudnormTargets \<Rightarrow> int \<Rightarrow> bool
   \<Rightarrow> ((error + LoudnormMeasurements) \<times> effect list) option" where
  "analyze_loudnorm_two_pass env input_path targets timeout_secs cache =
     (let filter_str = ''loudnorm=I='' @ format_num (integrated_lufs targets) @ '':'';
          filter_str = (case true_peak_dbtp targets of
                          None \<Rightarrow> filter_str
                        | Some tp \<Rightarrow> filter_str @ ''TP='' @ format_num tp @ '':'');
          filter_str = (case lra_lu targets of
                          None \<Rightarrow> filter_str
                        | Some lra \<Rightarrow> filter_str @ ''LRA='' @ format_num lra @ '':'');
          filter_str = filter_str @ ''print_format=json'';
          cmd = [''ffmpeg'', ''-hide_banner'', ''-stats'', ''-y'', ''-i'', input_path,
                 ''-map'', ''0:a:0?'', ''-vn'', ''-sn'', ''-dn'', ''-af'', filter_str,
                 ''-f'', ''null'', ''-''];
          start_time = start_clock env
      in (case popen env cmd of
            Inl e \<Rightarrow> Some (Inl e, [])
          | Inr process \<Rightarrow>
              if \<not> has_stderr process then
                Some (Inl (RuntimeError ''Failed to open stderr pipe for ffmpeg process''), [])
              else
                (case read_loop start_time timeout_secs (reads process) [] of
                   None \<Rightarrow> None
                 | Some (TimedOut stderr_lines) \<Rightarrow>
                     Some (Inl (RuntimeError (''ffmpeg loudnorm pass 1 timeout after ''
                                   @ str_int timeout_secs @ ''s'')),
                           [Terminate, WaitTimeout 5]
                             @ (if exits_on_terminate process then [] else [Kill, Wait]))
                 | Some (Exited returncode stderr_lines) \<Rightarrow>
                     (let wall_seconds = exit_clock process - start_time
                      in if returncode \<noteq> 0 then
                           (let stderr_text = concat stderr_lines;
                                tail = last_chars 1000 (strip stderr_text)
                            in Some (Inl (RuntimeError (''ffmpeg loudnorm pass 1 failed (code ''
                                            @ str_int returncode @ ''): '' @ tail)),
                                     [Wait]))
                         else
                           (let stderr_text = concat stderr_lines
                            in (case parse_loudnorm_json (loads env) stderr_text of
                                  Inl e \<Rightarrow> Some (Inl e, [Wait])
                                | Inr obj \<Rightarrow>
                                    (case extract_measurements (str_to_float env) obj of
                                       Inl e \<Rightarrow> Some (Inl e, [Wait])
                                     | Inr meas \<Rightarrow>
                                         Some (Inr meas,
                                               [Wait] @
                                               (case map_of obj ''duration'' of
                                                  Some duration \<Rightarrow>
                                                    if cache \<and> duration_over_5 (Some duration)
                                                    then [RecordPerformance duration wall_seconds]
                                                    else []
                                                | None \<Rightarrow> [])))))))))"

section \<open>Pass 2 filter (\<open>core/audio_normalizer.py\<close>)\<close>

definition build_loudnorm_pass2_filter :: "LoudnormTargets \<Rightarrow> LoudnormMeasurements \<Rightarrow> string" where
  "build_loudnorm_pass2_filter targets meas =
     (let filter_str = ''loudnorm=I='' @ format_num (integrated_lufs targets) @ '':'';
          filter_str = (case true_peak_dbtp targets of
                          None \<Rightarrow> filter_str
                        | Some tp \<Rightarrow> filter_str @ ''TP='' @ format_num tp @ '':'');
          filter_str = (case lra_lu targets of
                          None \<Rightarrow> filter_str
                        | Some lra \<Rightarrow> filter_str @ ''LRA='' @ format_num lra @ '':'');
          filter_str = filter_str
            @ ''measured_I='' @ format_num (measured_I meas) @ '':''
            @ ''measured_TP='' @ format_num (measured_TP meas) @ '':''
            @ ''measured_LRA='' @ format_num (measured_LRA meas) @ '':''
            @ ''measured_thresh='' @ format_num (measured_thresh meas) @ '':''
            @ ''offset='' @ format_num (offset meas)
      in filter_str)"

definition build_replaygain_filter :: string where
  "build_replaygain_filter = ''replaygain''"

section \<open>Filter injection (\<open>core/audio_normalizer.py\<close>)\<close>

text \<open>
  \<open>inject_audio_filter(cmd, filter_str)\<close>: the slices \<open>cmd[:out_idx]\<close> and
  \<open>cmd[out_idx:]\<close> are \<open>take\<close> and \<open>drop\<close>; \<open>out_idx = len(cmd) - 1\<close> is only
  computed when \<open>len(cmd) \<ge> 2\<close>, so the truncating subtraction on \<open>nat\<close> is exact.
\<close>

definition inject_audio_filter :: "string list \<Rightarrow> string \<Rightarrow> string list" where
  "inject_audio_filter cmd filter_str =
     (if length cmd < 2 then cmd
      else let out_idx = length cmd - 1
           in take out_idx cmd @ [''-af'', filter_str] @ drop out_idx cmd)"

section \<open>Orchestration (\<open>core/audio_normalizer.py\<close>)\<close>

text \<open>
  The body of the \<open>try\<close> block of \<open>maybe_apply_audio_normalization\<close>, with the choice
  of the targets (USDB defaults or the three configured values) written first.
  \<open>precomputed_meas\<close> is \<open>None\<close> or measurements; \<open>cache\<close> says whether a truthy cache
  was passed.
\<close>

definition loudnorm_targets :: "AudioConfig \<Rightarrow> LoudnormTargets" where
  "loudnorm_targets audio_cfg =
     (if audio_normalization_use_usdb_defaults audio_cfg then
        \<lparr>integrated_lufs = usdb_target_loudness audio_cfg,
         true_peak_dbtp = None, lra_lu = None\<rparr>
      else
        \<lparr>integrated_lufs = audio_normalization_target audio_cfg,
         true_peak_dbtp = Some (audio_normalization_true_peak audio_cfg),
         lra_lu = Some (audio_normalization_lra audio_cfg)\<rparr>)"

definition normalization_try_block ::
  "environment \<Rightarrow> string list \<Rightarrow> string \<Rightarrow> TranscoderConfig \<Rightarrow> LoudnormMeasurements option
   \<Rightarrow> bool \<Rightarrow> ((error + string list) \<times> effect list) option" where
  "normalization_try_block env base_cmd input_path cfg precomputed_meas cache =
     (let method = audio_normalization_method (audio cfg)
      in if method = ''loudnorm'' then
           (let targets = loudnorm_targets (audio cfg)
            in (case precomputed_meas of
                  Some meas \<Rightarrow>
                    Some (Inr (inject_audio_filter base_cmd
                                 (build_loudnorm_pass2_filter targets meas)), [])
                | None \<Rightarrow>
                    (let analysis_timeout = min (timeout_seconds (general cfg)) 300
                     in (case analyze_loudnorm_two_pass env input_path targets
                                analysis_timeout cache of
                           None \<Rightarrow> None
                         | Some (Inl e, effects) \<Rightarrow> Some (Inl e, effects)
                         | Some (Inr meas, effects) \<Rightarrow>
                             Some (Inr (inject_audio_filter base_cmd
                                          (build_loudnorm_pass2_filter targets meas)),
                                   effects)))))
         else if method = ''replaygain'' then
           Some (Inr (inject_audio_filter base_cmd build_replaygain_filter), [])
         else Some (Inr base_cmd, []))"

text \<open>
  \<open>maybe_apply_audio_normalization\<close>: the two early returns, then the \<open>try\<close> block with
  \<open>except Exception\<close>, which returns \<open>base_cmd\<close>.
\<close>

definition maybe_apply_audio_normalization ::
  "environment \<Rightarrow> string list \<Rightarrow> string \<Rightarrow> TranscoderConfig \<Rightarrow> bool
   \<Rightarrow> LoudnormMeasurements option \<Rightarrow> bool \<Rightarrow> ((error + string list) \<times> effect list) option" where
  "maybe_apply_audio_normalization env base_cmd input_path cfg stream_copy precomputed_meas cache =
     (if \<not> audio_normalization_enabled (audio cfg) then Some (Inr base_cmd, [])
      else if stream_copy then Some (Inr base_cmd, [])
      else
        (case normalization_try_block env base_cmd input_path cfg precomputed_meas cache of
           None \<Rightarrow> None
         | Some (Inl e, effects) \<Rightarrow> Some (Inr base_cmd, effects)
         | Some (Inr cmd, effects) \<Rightarrow> Some (Inr cmd, effects)))"

section \<open>Example inputs\<close>

text \<open>Concrete inputs on which the statements below are evaluated.\<close>

definition example_codec_cfg :: VideoCodecConfig where
  "example_codec_cfg =
     \<lparr>preset = ''medium'', profile = ''high'', crf = 23, pixel_format = ''yuv420p'',
      cpu_used = 4, deadline = ''good''\<rparr>"

definition example_audio_cfg :: AudioConfig where
  "example_audio_cfg =
     \<lparr>audio_normalization_enabled = True,
      audio_normalization_method = ''loudnorm'',
      audio_normalization_use_usdb_defaults = True,
      usdb_target_loudness = Finite True 16 0,
      audio_normalization_target = Finite True 23 0,
      audio_normalization_true_peak = Finite True 2 0,
      audio_normalization_lra = Finite False 11 0,
      mp3_quality = 2,
      vorbis_quality = Finite False 6 0,
      aac_vbr_mode = 4,
      opus_bitrate_kbps = 160\<rparr>"

definition example_cfg :: TranscoderConfig where
  "example_cfg =
     \<lparr>h264 = example_codec_cfg, vp8 = example_codec_cfg, hevc = example_codec_cfg,
      vp9 = example_codec_cfg, av1 = example_codec_cfg,
      general = \<lparr>timeout_seconds = 3600, max_bitrate_kbps = None, max_resolution = None,
                 max_fps = None\<rparr>,
      usdb_integration = \<lparr>use_usdb_resolution = False\<rparr>,
      audio = example_audio_cfg\<rparr>"

definition example_video :: VideoInfo where
  "example_video = \<lparr>codec_name = ''h264'', has_audio = False, audio_codec = None\<rparr>"

text \<open>
  ffmpeg prints the loudnorm measurements as one flat object whose keys and values are
  strings without escapes. \<open>loads_flat\<close> stands for \<open>json.loads\<close> (Python 3.11) where a
  statement is evaluated on a concrete text. It reads, in one pass from left to right, the
  flat objects whose keys are strings without escapes and whose values are such strings or
  unsigned integer literals: a later value of a key replaces the earlier one, an integer
  literal of more than 4300 digits raises the plain \<open>ValueError\<close> of \<open>int\<close> as soon as
  the literal is complete, and anything else is answered with \<open>JSONDecodeError\<close>. That is
  the answer of \<open>json.loads\<close> on every text used below; JSON outside this fragment
  (escapes, other values, nesting inside a complete object) is not covered.
\<close>

definition json_ws :: "char \<Rightarrow> bool" where
  "json_ws c \<longleftrightarrow> c \<in> {CHR '' '', CHR 0x09, CHR 0x0A, CHR 0x0D}"

definition is_digit :: "char \<Rightarrow> bool" where
  "is_digit c \<longleftrightarrow> c \<in> set ''0123456789''"

definition control_chars :: string where
  "control_chars =
     [CHR 0x00, CHR 0x01, CHR 0x02, CHR 0x03, CHR 0x04, CHR 0x05, CHR 0x06, CHR 0x07,
      CHR 0x08, CHR 0x09, CHR 0x0A, CHR 0x0B, CHR 0x0C, CHR 0x0D, CHR 0x0E, CHR 0x0F,
      CHR 0x10, CHR 0x11, CHR 0x12, CHR 0x13, CHR 0x14, CHR 0x15, CHR 0x16, CHR 0x17,
      CHR 0x18, CHR 0x19, CHR 0x1A, CHR 0x1B, CHR 0x1C, CHR 0x1D, CHR 0x1E, CHR 0x1F]"

definition plain_char :: "char \<Rightarrow> bool" where
  \<open>plain_char c \<longleftrightarrow> c \<noteq> CHR ''"'' \<and> c \<noteq> CHR 0x5C \<and> c \<notin> set control_chars\<close>

definition int_of_digits :: "string \<Rightarrow> int" where
  "int_of_digits ds =
     foldl (\<lambda>a c. 10 * a + (case map_of (zip ''0123456789'' [0, 1, 2, 3, 4, 5, 6, 7, 8, 9]) c of
                                 Some d \<Rightarrow> d | None \<Rightarrow> 0)) 0 ds"

definition dict_set :: "string \<Rightarrow> json \<Rightarrow> pydict \<Rightarrow> pydict" where
  "dict_set k v d =
     (if k \<in> fst ` set d then map (\<lambda>(k', v'). if k' = k then (k', v) else (k', v')) d
      else d @ [(k, v)])"

datatype reader_state =
    Start
  | Opened
  | InKey string
  | AfterKey string
  | BeforeValue string
  | InString string string
  | InNumber string string
  | AfterValue
  | AfterComma
  | Closed

fun read_object :: "reader_state \<Rightarrow> pydict \<Rightarrow> string \<Rightarrow> error + json" where
  \<open>read_object Closed d [] = Inr (JObj d)\<close>
| \<open>read_object (InNumber k ds) d [] =
     (if 4300 < length ds then Inl (ValueError []) else Inl (JSONDecodeError []))\<close>
| \<open>read_object st d [] = Inl (JSONDecodeError [])\<close>
| \<open>read_object Start d (c # cs) =
     (if json_ws c then read_object Start d cs
      else if c = CHR ''{'' then read_object Opened d cs
      else Inl (JSONDecodeError []))\<close>
| \<open>read_object Opened d (c # cs) =
     (if json_ws c then read_object Opened d cs
      else if c = CHR ''"'' then read_object (InKey []) d cs
      else if c = CHR ''}'' then read_object Closed d cs
      else Inl (JSONDecodeError []))\<close>
| \<open>read_object (InKey k) d (c # cs) =
     (if c = CHR ''"'' then read_object (AfterKey k) d cs
      else if plain_char c then read_object (InKey (k @ [c])) d cs
      else Inl (JSONDecodeError []))\<close>
| \<open>read_object (AfterKey k) d (c # cs) =
     (if json_ws c then read_object (AfterKey k) d cs
      else if c = CHR '':'' then read_object (BeforeValue k) d cs
      else Inl (JSONDecodeError []))\<close>
| \<open>read_object (BeforeValue k) d (c # cs) =
     (if json_ws c then read_object (BeforeValue k) d cs
      else if c = CHR ''"'' then read_object (InString k []) d cs
      else if is_digit c then read_object (InNumber k [c]) d cs
      else Inl (JSONDecodeError []))\<close>
| \<open>read_object (InString k v) d (c # cs) =
     (if c = CHR ''"'' then read_object AfterValue (dict_set k (JStr v) d) cs
      else if plain_char c then read_object (InString k (v @ [c])) d cs
      else Inl (JSONDecodeError []))\<close>
| \<open>read_object (InNumber k ds) d (c # cs) =
     (if is_digit c then
        (if ds = ''0'' then Inl (JSONDecodeError [])
         else read_object (InNumber k (ds @ [c])) d cs)
      else if c \<in> {CHR ''.'', CHR ''e'', CHR ''E''} then Inl (JSONDecodeError [])
      else if 4300 < length ds then Inl (ValueError [])
      else if json_ws c then read_object AfterValue (dict_set k (JInt (int_of_digits ds)) d) cs
      else if c = CHR '','' then
        read_object AfterComma (dict_set k (JInt (int_of_digits ds)) d) cs
      else if c = CHR ''}'' then read_object Closed (dict_set k (JInt (int_of_digits ds)) d) cs
      else Inl (JSONDecodeError []))\<close>
| \<open>read_object AfterValue d (c # cs) =
     (if json_ws c then read_object AfterValue d cs
      else if c = CHR '','' then read_object AfterComma d cs
      else if c = CHR ''}'' then read_object Closed d cs
      else Inl (JSONDecodeError []))\<close>
| \<open>read_object AfterComma d (c # cs) =
     (if json_ws c then read_object AfterComma d cs
      else if c = CHR ''"'' then read_object (InKey []) d cs
      else Inl (JSONDecodeError []))\<close>
| \<open>read_object Closed d (c # cs) =
     (if json_ws c then read_object Closed d cs else Inl (JSONDecodeError []))\<close>

definition loads_flat :: "string \<Rightarrow> error + json" where
  "loads_flat blob = read_object Start [] blob"

text \<open>The values of \<open>float\<close> on the strings of the examples, as doubles.\<close>

definition example_str_to_float :: "string \<Rightarrow> pyfloat option" where
  "example_str_to_float s =
     map_of [(''-25.00'', Finite True 25 0), (''-5.00'', Finite True 5 0),
             (''6.00'', Finite False 6 0), (''-35.00'', Finite True 35 0),
             (''1.00'', Finite False 1 0),
             (''-20.20'', Finite True 5685794529555251 (- 48)),
             (''-3.10'', Finite True 6980579422424269 (- 51)),
             (''7.40'', Finite False 4165829655317709 (- 49)),
             (''-30.20'', Finite True 8500544296661811 (- 48)),
             (''3.80'', Finite False 4278419646001971 (- 50)),
             (''inf'', Infinity False), (''-inf'', Infinity True), (''nan'', NaN)] s"

text \<open>Diagnostic output with two measurement blocks, as three lines.\<close>

definition example_block_first :: string where
  \<open>example_block_first =
     ''{"input_i" : "-25.00", "input_tp" : "-5.00", "input_lra" : "6.00", "input_thresh" : "-35.00", "target_offset" : "1.00"}''\<close>

definition example_block_last :: string where
  \<open>example_block_last =
     ''{"input_i" : "-20.20", "input_tp" : "-3.10", "input_lra" : "7.40", "input_thresh" : "-30.20", "target_offset" : "3.80"}''\<close>

text \<open>
  Three more blocks: one that lacks the measurement keys, one whose first value is an
  integer literal of 4301 digits, and one that holds a nested object.
\<close>

definition example_block_other :: string where
  \<open>example_block_other = ''{"format" : "json"}''\<close>

definition example_block_overlong :: string where
  \<open>example_block_overlong = ''{"input_i" : 7'' @ replicate 4300 (CHR ''7'') @ ''}''\<close>

definition example_block_nested :: string where
  \<open>example_block_nested =
     ''{"input_i" : "-20.20", "input_tp" : "-3.10", "input_lra" : "7.40", "input_thresh" : "-30.20", "target_offset" : "3.80", "extra" : {"k" : "v"}}''\<close>

definition example_lines :: "string list" where
  "example_lines =
     [''[Parsed_loudnorm_0 @ 0x1] '' @ example_block_first @ [CHR 0x0A],
      ''size=N/A time=00:03:20.00 bitrate=N/A speed= 120x'' @ [CHR 0x0A],
      ''[Parsed_loudnorm_0 @ 0x1] '' @ example_block_last @ [CHR 0x0A]]"

text \<open>
  Four runs of ffmpeg, started at clock 0. The first prints the three example lines and
  exits with code 0 after 3 seconds. The second prints an error and exits with code 1. The
  third prints its measurements after 1 second, is silent for the rest of its run and
  exits with code 0 after 1000 seconds. The fourth prints a line after 100 seconds and
  another after 301 seconds, and ignores \<open>terminate()\<close>.
\<close>

definition process_ok :: process where
  "process_ok =
     \<lparr>has_stderr = True,
      reads = [\<lparr>line = example_lines ! 0, poll = None, clock = 1\<rparr>,
               \<lparr>line = example_lines ! 1, poll = None, clock = 2\<rparr>,
               \<lparr>line = example_lines ! 2, poll = None, clock = 3\<rparr>,
               \<lparr>line = [], poll = Some 0, clock = 3\<rparr>],
      exits_on_terminate = True,
      exit_clock = 3\<rparr>"

definition process_exit_1 :: process where
  "process_exit_1 =
     \<lparr>has_stderr = True,
      reads = [\<lparr>line = ''in.wav: No such file or directory'' @ [CHR 0x0A], poll = None,
                 clock = 1\<rparr>,
               \<lparr>line = [], poll = Some 1, clock = 1\<rparr>],
      exits_on_terminate = True,
      exit_clock = 1\<rparr>"

definition process_silent :: process where
  "process_silent =
     \<lparr>has_stderr = True,
      reads = [\<lparr>line = example_lines ! 2, poll = None, clock = 1\<rparr>,
               \<lparr>line = [], poll = Some 0, clock = 1000\<rparr>],
      exits_on_terminate = True,
      exit_clock = 1000\<rparr>"

definition process_slow :: process where
  "process_slow =
     \<lparr>has_stderr = True,
      reads = [\<lparr>line = example_lines ! 1, poll = None, clock = 100\<rparr>,
               \<lparr>line = example_lines ! 1, poll = None, clock = 301\<rparr>,
               \<lparr>line = example_lines ! 2, poll = None, clock = 302\<rparr>,
               \<lparr>line = [], poll = Some 0, clock = 302\<rparr>],
      exits_on_terminate = False,
      exit_clock = 302\<rparr>"

text \<open>A fifth run prints one line after 1 second, then nothing, and does not exit.\<close>

definition process_hung :: process where
  "process_hung =
     \<lparr>has_stderr = True,
      reads = [\<lparr>line = example_lines ! 1, poll = None, clock = 1\<rparr>],
      exits_on_terminate = True,
      exit_clock = 1\<rparr>"

definition example_env :: "process \<Rightarrow> environment" where
  "example_env proc =
     \<lparr>popen = (\<lambda>cmd. Inr proc), loads = loads_flat, str_to_float = example_str_to_float,
      start_clock = 0\<rparr>"

definition example_targets :: LoudnormTargets where
  "example_targets =
     \<lparr>integrated_lufs = Finite True 16 0, true_peak_dbtp = None, lra_lu = None\<rparr>"

definition example_measurements :: LoudnormMeasurements where
  "example_measurements =
     \<lparr>measured_I = Finite True 5685794529555251 (- 48),
      measured_TP = Finite True 6980579422424269 (- 51),
      measured_LRA = Finite False 4165829655317709 (- 49),
      measured_thresh = Finite True 8500544296661811 (- 48),
      offset = Finite False 4278419646001971 (- 50),
      raw = [(''input_i'', JStr ''-20.20''), (''input_tp'', JStr ''-3.10''),
             (''input_lra'', JStr ''7.40''), (''input_thresh'', JStr ''-30.20''),
             (''target_offset'', JStr ''3.80'')]\<rparr>"

text \<open>Two installations of ffmpeg: one with every encoder, one with no AV1 encoder.\<close>

definition encoders_all :: "string \<Rightarrow> bool" where
  "encoders_all encoder = True"

definition encoders_none :: "string \<Rightarrow> bool" where
  "encoders_none encoder = False"

section \<open>Properties\<close>

subsection \<open>Filter injection\<close>

lemma take_butlast_conv: "take (length xs - Suc 0) xs = butlast xs"
  by (simp add: butlast_conv_take)

lemma drop_last_conv: "xs \<noteq> [] \<Longrightarrow> drop (length xs - Suc 0) xs = [last xs]"
  by (cases xs rule: rev_cases) simp_all

text \<open>
  Claim C6. For a command of at least two tokens, \<open>inject_audio_filter\<close> returns the
  command with exactly the two tokens \<open>-af\<close> and the filter string inserted directly
  before the final token: the tokens before the last one are kept in order, the last
  token stays last, and the length grows by two. A command of fewer than two tokens is
  returned unchanged.
\<close>

theorem inject_audio_filter_inserts_before_last:
  "(2 \<le> length cmd \<longrightarrow>
      inject_audio_filter cmd f = butlast cmd @ [''-af'', f] @ [last cmd]
      \<and> length (inject_audio_filter cmd f) = length cmd + 2)
   \<and> (length cmd < 2 \<longrightarrow> inject_audio_filter cmd f = cmd)"
proof (intro conjI impI)
  assume len: "2 \<le> length cmd"
  then have ne: "cmd \<noteq> []" by auto
  show eq: "inject_audio_filter cmd f = butlast cmd @ [''-af'', f] @ [last cmd]"
    using len ne by (simp add: inject_audio_filter_def Let_def take_butlast_conv drop_last_conv)
  show "length (inject_audio_filter cmd f) = length cmd + 2"
    using len by (simp add: eq)
next
  assume "length cmd < 2"
  then show "inject_audio_filter cmd f = cmd"
    by (simp add: inject_audio_filter_def)
qed

text \<open>A five-token command becomes a seven-token command; a one-token command is unchanged.\<close>

theorem inject_audio_filter_five_and_one_token:
  "inject_audio_filter [''ffmpeg'', ''-y'', ''-i'', ''in.wav'', ''out.mp3''] ''replaygain''
     = [''ffmpeg'', ''-y'', ''-i'', ''in.wav'', ''-af'', ''replaygain'', ''out.mp3'']
   \<and> length (inject_audio_filter [''ffmpeg'', ''-y'', ''-i'', ''in.wav'', ''out.mp3''] ''replaygain'') = 7
   \<and> inject_audio_filter [''ffmpeg''] ''replaygain'' = [''ffmpeg'']"
  using inject_audio_filter_inserts_before_last
          [of "[''ffmpeg'', ''-y'', ''-i'', ''in.wav'', ''out.mp3'']" "''replaygain''"]
        inject_audio_filter_inserts_before_last [of "[''ffmpeg'']" "''replaygain''"]
  by simp

subsection \<open>Number rendering and the pass 2 filter\<close>

lemma digit_char_is_digit: "digit_char d \<in> set ''0123456789''"
  by (simp add: digit_char_def)

lemma str_nat_digits: "set (str_nat n) \<subseteq> set ''0123456789''"
proof (induction n rule: str_nat.induct)
  case (1 n)
  show ?case
  proof (cases "n < 10")
    case True
    then show ?thesis using digit_char_is_digit [of n] by (subst str_nat.simps) simp
  next
    case False
    then show ?thesis
      using 1 digit_char_is_digit [of "n mod 10"] by (subst str_nat.simps) simp
  qed
qed

lemma str_nat_nonempty: "str_nat n \<noteq> []"
  by (subst str_nat.simps) simp

lemma pad3_digits: "set (pad3 n) \<subseteq> set ''0123456789''"
  using digit_char_is_digit [of "n div 100"] digit_char_is_digit [of "n div 10 mod 10"]
        digit_char_is_digit [of "n mod 10"]
  by (simp add: pad3_def)

lemma rstrip_append_keep:
  assumes "a \<noteq> []" and "last a \<notin> set chars"
  shows "rstrip chars (a @ b) = a @ rstrip chars b"
proof -
  have "dropWhile (\<lambda>c. c \<in> set chars) (rev a) = rev a"
    using assms by (cases a rule: rev_cases) simp_all
  then show ?thesis
    by (simp add: rstrip_def dropWhile_append)
qed

lemma rstrip_subset: "set (rstrip chars s) \<subseteq> set s"
  by (metis rstrip_def set_dropWhileD set_rev subsetI)

lemma rstrip_id: "s \<noteq> [] \<Longrightarrow> last s \<notin> set chars \<Longrightarrow> rstrip chars s = s"
  using rstrip_append_keep [of s chars "[]"] by (simp add: rstrip_def)

lemma format_num_finite:
  "format_num (Finite neg m e) =
     (if neg then ''-'' else []) @ str_nat (thousandths m e div 1000)
       @ (let z = rstrip ''0'' (pad3 (thousandths m e mod 1000))
          in if z = [] then [] else ''.'' @ z)"
proof -
  define n where "n = thousandths m e"
  define sg where "sg = (if neg then ''-'' else [])"
  define ip where "ip = str_nat (n div 1000)"
  define z where "z = rstrip ''0'' (pad3 (n mod 1000))"
  have ip_ne: "sg @ ip \<noteq> []" by (simp add: ip_def str_nat_nonempty)
  have "last (sg @ ip) = last ip" by (simp add: ip_def str_nat_nonempty)
  moreover have "last ip \<in> set ''0123456789''"
    using str_nat_digits [of "n div 1000"] last_in_set [of ip] str_nat_nonempty [of "n div 1000"]
    unfolding ip_def by blast
  ultimately have ip_last: "last (sg @ ip) \<notin> set ''.''" by auto
  have step1: "rstrip ''0'' (format_3f (Finite neg m e)) = (sg @ ip @ ''.'') @ z"
    using rstrip_append_keep [of "sg @ ip @ ''.''" "''0''" "pad3 (n mod 1000)"]
    by (simp add: n_def sg_def ip_def z_def Let_def)
  have zdig: "set z \<subseteq> set ''0123456789''"
    using rstrip_subset [of "''0''" "pad3 (n mod 1000)"] pad3_digits [of "n mod 1000"]
    unfolding z_def by blast
  have step2: "rstrip ''.'' (''.'' @ z) = (if z = [] then [] else ''.'' @ z)"
  proof (cases "z = []")
    case True
    then show ?thesis by (simp add: rstrip_def)
  next
    case False
    then have "last z \<in> set z" by simp
    with zdig have "last z \<notin> set ''.''" by auto
    with False show ?thesis using rstrip_id [of "''.'' @ z" "''.''"] by simp
  qed
  have "format_num (Finite neg m e) = rstrip ''.'' ((sg @ ip) @ (''.'' @ z))"
    using step1 by (simp add: format_num_def)
  also have "\<dots> = (sg @ ip) @ rstrip ''.'' (''.'' @ z)"
    using ip_ne ip_last by (rule rstrip_append_keep)
  finally show ?thesis
    using step2 by (simp add: n_def sg_def ip_def z_def Let_def)
qed

lemma round_half_even_div_nearest:
  assumes "0 < d"
  shows "2 * \<bar>int (round_half_even_div a d) * int d - int a\<bar> \<le> int d"
proof -
  define q where "q = a div d"
  define r where "r = a mod d"
  have a: "int a = int q * int d + int r"
    unfolding q_def r_def by (metis div_mult_mod_eq of_nat_add of_nat_mult)
  have r: "r < d" unfolding r_def using assms by simp
  show ?thesis
  proof (cases "d < 2 * r \<or> (2 * r = d \<and> odd q)")
    case True
    then have "round_half_even_div a d = q + 1"
      by (simp add: round_half_even_div_def q_def r_def Let_def)
    then show ?thesis using True r a by (auto simp: algebra_simps)
  next
    case False
    then have "round_half_even_div a d = q"
      by (simp add: round_half_even_div_def q_def r_def Let_def)
    then show ?thesis using False r a by (auto simp: algebra_simps)
  qed
qed

lemma thousandths_nearest:
  "e < 0 \<Longrightarrow> 2 * \<bar>int (thousandths m e) * 2 ^ nat (- e) - int m * 1000\<bar> \<le> 2 ^ nat (- e)"
  using round_half_even_div_nearest [of "2 ^ nat (- e)" "m * 1000"]
  by (simp add: thousandths_def)

lemmas format_eval =
  format_num_def rstrip_def thousandths_def round_half_even_div_def pad3_def digit_char_def
  str_nat.simps Let_def

lemma pass2_filter_layout:
  "build_loudnorm_pass2_filter targets meas =
     ''loudnorm=I='' @ format_num (integrated_lufs targets) @ '':''
       @ (case true_peak_dbtp targets of None \<Rightarrow> [] | Some tp \<Rightarrow> ''TP='' @ format_num tp @ '':'')
       @ (case lra_lu targets of None \<Rightarrow> [] | Some lra \<Rightarrow> ''LRA='' @ format_num lra @ '':'')
       @ ''measured_I='' @ format_num (measured_I meas)
       @ '':measured_TP='' @ format_num (measured_TP meas)
       @ '':measured_LRA='' @ format_num (measured_LRA meas)
       @ '':measured_thresh='' @ format_num (measured_thresh meas)
       @ '':offset='' @ format_num (offset meas)"
  by (simp add: build_loudnorm_pass2_filter_def Let_def split: option.splits)

text \<open>
  Claim C9. \<open>build_loudnorm_pass2_filter\<close> is a function of targets and measurements
  alone. It emits the integrated-loudness target, then the true-peak and loudness-range
  targets only when they are given, then the five measured and offset values. Every finite
  number is printed with three decimals, the nearest multiple of one thousandth (exact when
  the binary exponent is not negative), and then loses its trailing zeros and a trailing
  point: what remains is the sign, the integer digits and, if any fraction digit is left,
  the point and the fraction digits. So \<open>128.0\<close> is printed \<open>128\<close> and \<open>-1.5\<close> is printed
  \<open>-1.5\<close>, and the targets \<open>I=-16.0\<close> with no true peak or loudness range and the
  measurements \<open>-20.2\<close>, \<open>-3.1\<close>, \<open>7.4\<close>, \<open>-30.2\<close>, \<open>3.8\<close> (as doubles) give the
  filter of the scenario.
\<close>

theorem build_loudnorm_pass2_filter_rendering:
  "build_loudnorm_pass2_filter targets meas =
     ''loudnorm=I='' @ format_num (integrated_lufs targets) @ '':''
       @ (case true_peak_dbtp targets of None \<Rightarrow> [] | Some tp \<Rightarrow> ''TP='' @ format_num tp @ '':'')
       @ (case lra_lu targets of None \<Rightarrow> [] | Some lra \<Rightarrow> ''LRA='' @ format_num lra @ '':'')
       @ ''measured_I='' @ format_num (measured_I meas)
       @ '':measured_TP='' @ format_num (measured_TP meas)
       @ '':measured_LRA='' @ format_num (measured_LRA meas)
       @ '':measured_thresh='' @ format_num (measured_thresh meas)
       @ '':offset='' @ format_num (offset meas)
   \<and> (isfinite v \<longrightarrow> format_num v = rstrip ''.'' (rstrip ''0'' (format_3f v)))
   \<and> format_3f (Finite neg m e) =
       (if neg then ''-'' else []) @ str_nat (thousandths m e div 1000) @ ''.''
         @ pad3 (thousandths m e mod 1000)
   \<and> (e < 0 \<longrightarrow> 2 * \<bar>int (thousandths m e) * 2 ^ nat (- e) - int m * 1000\<bar> \<le> 2 ^ nat (- e))
   \<and> (0 \<le> e \<longrightarrow> thousandths m e = m * 1000 * 2 ^ nat e)
   \<and> format_num (Finite neg m e) =
       (if neg then ''-'' else []) @ str_nat (thousandths m e div 1000)
         @ (let z = rstrip ''0'' (pad3 (thousandths m e mod 1000))
            in if z = [] then [] else ''.'' @ z)
   \<and> format_num (Finite False 128 0) = ''128''
   \<and> format_num (Finite True 3 (- 1)) = ''-1.5''
   \<and> build_loudnorm_pass2_filter
         \<lparr>integrated_lufs = Finite True 16 0, true_peak_dbtp = None, lra_lu = None\<rparr>
         \<lparr>measured_I = Finite True 5685794529555251 (- 48),
          measured_TP = Finite True 6980579422424269 (- 51),
          measured_LRA = Finite False 4165829655317709 (- 49),
          measured_thresh = Finite True 8500544296661811 (- 48),
          offset = Finite False 4278419646001971 (- 50), raw = obj\<rparr>
       = ''loudnorm=I=-16:measured_I=-20.2:measured_TP=-3.1:measured_LRA=7.4:measured_thresh=-30.2:offset=3.8''"
proof (intro conjI impI)
  show "format_num (Finite False 128 0) = ''128''" by (simp add: format_eval)
  show "format_num (Finite True 3 (- 1)) = ''-1.5''" by (simp add: format_eval)
  show "build_loudnorm_pass2_filter
         \<lparr>integrated_lufs = Finite True 16 0, true_peak_dbtp = None, lra_lu = None\<rparr>
         \<lparr>measured_I = Finite True 5685794529555251 (- 48),
          measured_TP = Finite True 6980579422424269 (- 51),
          measured_LRA = Finite False 4165829655317709 (- 49),
          measured_thresh = Finite True 8500544296661811 (- 48),
          offset = Finite False 4278419646001971 (- 50), raw = obj\<rparr>
       = ''loudnorm=I=-16:measured_I=-20.2:measured_TP=-3.1:measured_LRA=7.4:measured_thresh=-30.2:offset=3.8''"
    by (simp add: build_loudnorm_pass2_filter_def format_eval)
  show "build_loudnorm_pass2_filter targets meas =
     ''loudnorm=I='' @ format_num (integrated_lufs targets) @ '':''
       @ (case true_peak_dbtp targets of None \<Rightarrow> [] | Some tp \<Rightarrow> ''TP='' @ format_num tp @ '':'')
       @ (case lra_lu targets of None \<Rightarrow> [] | Some lra \<Rightarrow> ''LRA='' @ format_num lra @ '':'')
       @ ''measured_I='' @ format_num (measured_I meas)
       @ '':measured_TP='' @ format_num (measured_TP meas)
       @ '':measured_LRA='' @ format_num (measured_LRA meas)
       @ '':measured_thresh='' @ format_num (measured_thresh meas)
       @ '':offset='' @ format_num (offset meas)"
    by (rule pass2_filter_layout)
  show "format_num v = rstrip ''.'' (rstrip ''0'' (format_3f v))" if "isfinite v"
    using that by (simp add: format_num_def)
  show "format_3f (Finite neg m e) =
       (if neg then ''-'' else []) @ str_nat (thousandths m e div 1000) @ ''.''
         @ pad3 (thousandths m e mod 1000)"
    by (simp add: Let_def)
  show "2 * \<bar>int (thousandths m e) * 2 ^ nat (- e) - int m * 1000\<bar> \<le> 2 ^ nat (- e)" if "e < 0"
    using that by (rule thousandths_nearest)
  show "thousandths m e = m * 1000 * 2 ^ nat e" if "0 \<le> e"
    using that by (simp add: thousandths_def)
  show "format_num (Finite neg m e) =
       (if neg then ''-'' else []) @ str_nat (thousandths m e div 1000)
         @ (let z = rstrip ''0'' (pad3 (thousandths m e mod 1000))
            in if z = [] then [] else ''.'' @ z)"
    by (rule format_num_finite)
qed

text \<open>The rendering of \<open>-1.5\<close> and the thousandths of \<open>-1.5\<close> and \<open>128.0\<close>.\<close>

theorem format_num_rendering_examples:
  "isfinite (Finite True 3 (- 1))
   \<and> format_num (Finite True 3 (- 1)) = rstrip ''.'' (rstrip ''0'' (format_3f (Finite True 3 (- 1))))
   \<and> format_3f (Finite True 3 (- 1)) = ''-1.500''
   \<and> (- 1 :: int) < 0
   \<and> thousandths 3 (- 1) = 1500
   \<and> (0 :: int) \<le> 7 \<and> thousandths 1 7 = 128000
   \<and> format_num (Finite True 3 (- 1)) = ''-1.5''"
  using build_loudnorm_pass2_filter_rendering [of _ _ "Finite True 3 (- 1)" True 3 "- 1"]
        build_loudnorm_pass2_filter_rendering [of _ _ "Finite False 1 7" False 1 7]
  by (simp add: format_eval)

subsection \<open>Built commands\<close>

lemma H264_ends: "\<exists>pre. H264Handler_build_encode_command i out v cfg accel hw_enc hw_dec = pre @ [out]"
  by (simp add: H264Handler_build_encode_command_def Let_def)

lemma VP8_ends: "\<exists>pre. VP8Handler_build_encode_command i out v cfg accel hw_enc hw_dec = pre @ [out]"
  by (simp add: VP8Handler_build_encode_command_def Let_def)

lemma HEVC_ends: "\<exists>pre. HEVCHandler_build_encode_command i out v cfg accel hw_enc hw_dec = pre @ [out]"
  by (simp add: HEVCHandler_build_encode_command_def Let_def)

lemma VP9_ends: "\<exists>pre. VP9Handler_build_encode_command i out v cfg accel hw_enc hw_dec = pre @ [out]"
  by (simp add: VP9Handler_build_encode_command_def Let_def)

lemma AV1_ends: "\<exists>pre. AV1Handler_build_encode_command chk i out v cfg accel hw_enc hw_dec = pre @ [out]"
  by (simp add: AV1Handler_build_encode_command_def Let_def)

lemma video_ends:
  "\<exists>pre. video_build_encode_command chk h i out v cfg accel hw_enc hw_dec = pre @ [out]"
  by (cases h) (simp_all add: H264_ends VP8_ends HEVC_ends VP9_ends AV1_ends)

lemma MP3_ends:
  "MP3AudioHandler_build_encode_command i out cfg sc = Inr cmd \<Longrightarrow> \<exists>pre. cmd = pre @ [out]"
  by (auto simp: MP3AudioHandler_build_encode_command_def Let_def split: sum.splits if_splits)

lemma Vorbis_ends:
  "VorbisAudioHandler_build_encode_command fs i out cfg sc = Inr cmd \<Longrightarrow> \<exists>pre. cmd = pre @ [out]"
  by (auto simp: VorbisAudioHandler_build_encode_command_def Let_def split: sum.splits if_splits)

lemma AAC_ends:
  "AACAudioHandler_build_encode_command i out cfg sc = Inr cmd \<Longrightarrow> \<exists>pre. cmd = pre @ [out]"
  by (auto simp: AACAudioHandler_build_encode_command_def Let_def split: sum.splits if_splits)

lemma Opus_ends:
  "OpusAudioHandler_build_encode_command i out cfg sc = Inr cmd \<Longrightarrow> \<exists>pre. cmd = pre @ [out]"
  by (auto simp: OpusAudioHandler_build_encode_command_def Let_def split: sum.splits if_splits)

lemma audio_ends:
  "audio_build_encode_command fs a i out cfg sc = Inr cmd \<Longrightarrow> \<exists>pre. cmd = pre @ [out]"
  by (cases a) (auto dest: MP3_ends Vorbis_ends AAC_ends Opus_ends)

text \<open>
  Claim C5. Every command a builder returns has the output path as its final token: the
  five video builders always return a command, and an audio builder that returns one (its
  validation passed) returns one that ends with the output path.
\<close>

theorem built_command_ends_with_output_path:
  "last (video_build_encode_command chk h i out v cfg accel hw_enc hw_dec) = out
   \<and> (audio_build_encode_command fs a i out cfg sc = Inr cmd \<longrightarrow> last cmd = out)"
proof (intro conjI impI)
  obtain pre where "video_build_encode_command chk h i out v cfg accel hw_enc hw_dec = pre @ [out]"
    using video_ends by blast
  then show "last (video_build_encode_command chk h i out v cfg accel hw_enc hw_dec) = out"
    by simp
next
  assume "audio_build_encode_command fs a i out cfg sc = Inr cmd"
  then obtain pre where "cmd = pre @ [out]"
    using audio_ends by blast
  then show "last cmd = out" by simp
qed

lemmas path_eval =
  path_suffix_def path_name_def lower_def lower_char_def upper_letters_def lower_letters_def
  lstrip_def quote_def Let_def

lemmas cfg_eval = example_cfg_def example_audio_cfg_def example_codec_cfg_def example_video_def

lemmas num_eval = str_int_def str_nat.simps digit_char_def

text \<open>The MP3 command for quality 2 and the output \<open>out.mp3\<close>.\<close>

theorem mp3_command_ends_with_output_path:
  "audio_build_encode_command format_3f MP3AudioHandler ''in.wav'' ''out.mp3'' example_cfg False
     = Inr [''ffmpeg'', ''-y'', ''-hide_banner'', ''-i'', ''in.wav'', ''-map'', ''0:a:0?'',
            ''-vn'', ''-sn'', ''-dn'', ''-c:a'', ''libmp3lame'', ''-q:a'', ''2'', ''out.mp3'']
   \<and> last [''ffmpeg'', ''-y'', ''-hide_banner'', ''-i'', ''in.wav'', ''-map'', ''0:a:0?'',
            ''-vn'', ''-sn'', ''-dn'', ''-c:a'', ''libmp3lame'', ''-q:a'', ''2'', ''out.mp3'']
       = ''out.mp3''"
proof -
  have run: "audio_build_encode_command format_3f MP3AudioHandler ''in.wav'' ''out.mp3''
               example_cfg False
     = Inr [''ffmpeg'', ''-y'', ''-hide_banner'', ''-i'', ''in.wav'', ''-map'', ''0:a:0?'',
            ''-vn'', ''-sn'', ''-dn'', ''-c:a'', ''libmp3lame'', ''-q:a'', ''2'', ''out.mp3'']"
    by (simp add: MP3AudioHandler_build_encode_command_def MP3AudioHandler_validate_config_def
        MP3AudioHandler_capabilities_def ensure_int_in_range_def audio_force_extension_def
        audio_common_prefix_def cfg_eval path_eval num_eval)
  show ?thesis
    using run built_command_ends_with_output_path
      [where fs = format_3f and a = MP3AudioHandler and i = "''in.wav''" and out = "''out.mp3''"
         and cfg = example_cfg and sc = False
         and cmd = "[''ffmpeg'', ''-y'', ''-hide_banner'', ''-i'', ''in.wav'', ''-map'',
            ''0:a:0?'', ''-vn'', ''-sn'', ''-dn'', ''-c:a'', ''libmp3lame'', ''-q:a'', ''2'',
            ''out.mp3'']"]
    by simp
qed

subsection \<open>Validation of the audio builders\<close>

lemma ensure_int_in_range_isl:
  "isl (ensure_int_in_range param val low high) \<longleftrightarrow> val < low \<or> high < val"
  by (simp add: ensure_int_in_range_def)

lemma ensure_float_in_range_isl:
  "isl (ensure_float_in_range fs param val low high) \<longleftrightarrow> float_lt val low \<or> float_gt val high"
  by (simp add: ensure_float_in_range_def)

lemma audio_force_extension_isl:
  "isl (audio_force_extension path exts) \<longleftrightarrow> lstrip ''.'' (lower (path_suffix path)) \<notin> set exts"
  by (simp add: audio_force_extension_def Let_def)

lemma MP3_fails_iff:
  "isl (MP3AudioHandler_build_encode_command i out cfg sc) \<longleftrightarrow>
     mp3_quality (audio cfg) < 0 \<or> 9 < mp3_quality (audio cfg)
     \<or> lstrip ''.'' (lower (path_suffix out)) \<notin> {''mp3''}"
  using ensure_int_in_range_isl [of "''mp3_quality''" "mp3_quality (audio cfg)" 0 9]
        audio_force_extension_isl [of out "[''mp3'']"]
  by (auto simp: MP3AudioHandler_build_encode_command_def MP3AudioHandler_validate_config_def
        MP3AudioHandler_capabilities_def Let_def split: sum.splits)

lemma Vorbis_fails_iff:
  "isl (VorbisAudioHandler_build_encode_command fs i out cfg sc) \<longleftrightarrow>
     float_lt (vorbis_quality (audio cfg)) (Finite True 1 0)
     \<or> float_gt (vorbis_quality (audio cfg)) (Finite False 10 0)
     \<or> lstrip ''.'' (lower (path_suffix out)) \<notin> {''ogg''}"
  using ensure_float_in_range_isl [of fs "''vorbis_quality''" "vorbis_quality (audio cfg)"
          "Finite True 1 0" "Finite False 10 0"]
        audio_force_extension_isl [of out "[''ogg'']"]
  by (auto simp: VorbisAudioHandler_build_encode_command_def VorbisAudioHandler_validate_config_def
        VorbisAudioHandler_capabilities_def Let_def split: sum.splits)

lemma AAC_fails_iff:
  "isl (AACAudioHandler_build_encode_command i out cfg sc) \<longleftrightarrow>
     aac_vbr_mode (audio cfg) < 1 \<or> 5 < aac_vbr_mode (audio cfg)
     \<or> lstrip ''.'' (lower (path_suffix out)) \<notin> {''m4a'', ''mp4''}"
  using ensure_int_in_range_isl [of "''aac_vbr_mode''" "aac_vbr_mode (audio cfg)" 1 5]
        audio_force_extension_isl [of out "[''m4a'', ''mp4'']"]
  by (auto simp: AACAudioHandler_build_encode_command_def AACAudioHandler_validate_config_def
        Let_def split: sum.splits)

lemma Opus_fails_iff:
  "isl (OpusAudioHandler_build_encode_command i out cfg sc) \<longleftrightarrow>
     opus_bitrate_kbps (audio cfg) < 6 \<or> 510 < opus_bitrate_kbps (audio cfg)
     \<or> lstrip ''.'' (lower (path_suffix out)) \<notin> {''opus''}"
  using ensure_int_in_range_isl [of "''opus_bitrate_kbps''" "opus_bitrate_kbps (audio cfg)" 6 510]
        audio_force_extension_isl [of out "[''opus'']"]
  by (auto simp: OpusAudioHandler_build_encode_command_def OpusAudioHandler_validate_config_def
        OpusAudioHandler_capabilities_def Let_def split: sum.splits)

lemma audio_error_is_ValueError:
  "audio_build_encode_command fs a i out cfg sc = Inl e \<Longrightarrow> \<exists>msg. e = ValueError msg"
  by (cases a)
     (auto simp: MP3AudioHandler_build_encode_command_def MP3AudioHandler_validate_config_def
        VorbisAudioHandler_build_encode_command_def VorbisAudioHandler_validate_config_def
        AACAudioHandler_build_encode_command_def AACAudioHandler_validate_config_def
        OpusAudioHandler_build_encode_command_def OpusAudioHandler_validate_config_def
        ensure_int_in_range_def ensure_float_in_range_def audio_force_extension_def Let_def
        split: sum.splits if_splits)

subsection \<open>Float comparison\<close>

lemma signed_scaled_value:
  assumes "e0 \<le> e"
  shows "real_of_int (signed_scaled neg m e e0) = finite_value neg m e * 2 powr (- real_of_int e0)"
proof -
  have "(2::real) ^ nat (e - e0) = 2 powr real (nat (e - e0))"
    by (simp add: powr_realpow)
  also have "\<dots> = 2 powr (real_of_int e - real_of_int e0)"
    using assms by simp
  also have "\<dots> = 2 powr real_of_int e * 2 powr (- real_of_int e0)"
    by (simp add: powr_diff powr_minus divide_inverse)
  finally have p: "(2::real) ^ nat (e - e0) = 2 powr real_of_int e * 2 powr (- real_of_int e0)" .
  show ?thesis
    by (simp add: signed_scaled_def finite_value_def p)
qed

lemma float_lt_finite_iff:
  "float_lt (Finite n1 m1 e1) (Finite n2 m2 e2) \<longleftrightarrow> finite_value n1 m1 e1 < finite_value n2 m2 e2"
proof -
  define e0 where "e0 = min e1 e2"
  have pos: "0 < (2::real) powr (- real_of_int e0)" by simp
  have "float_lt (Finite n1 m1 e1) (Finite n2 m2 e2) \<longleftrightarrow>
        real_of_int (signed_scaled n1 m1 e1 e0) < real_of_int (signed_scaled n2 m2 e2 e0)"
    by (simp add: e0_def)
  also have "\<dots> \<longleftrightarrow> finite_value n1 m1 e1 * 2 powr (- real_of_int e0)
                     < finite_value n2 m2 e2 * 2 powr (- real_of_int e0)"
    by (simp add: signed_scaled_value e0_def)
  also have "\<dots> \<longleftrightarrow> finite_value n1 m1 e1 < finite_value n2 m2 e2"
    using pos by (simp only: mult_less_cancel_right_pos)
  finally show ?thesis .
qed

lemma finite_value_minus_one: "finite_value True (Suc 0) 0 = - 1"
  by (simp add: finite_value_def)

lemma finite_value_ten: "finite_value False 10 0 = 10"
  by (simp add: finite_value_def)

subsection \<open>Fail-fast validation\<close>

text \<open>
  What the validation does establish. Each audio builder fails with a \<open>ValueError\<close>, and
  so returns no command token at all, exactly when its numeric parameter compares out of
  range or the output extension is not accepted: MP3 quality below 0 or above 9, Vorbis
  quality comparing below \<open>-1.0\<close> or above \<open>10.0\<close> (for a finite quality: its value is
  below \<open>-1\<close> or above \<open>10\<close>), AAC VBR mode below 1 or above 5, Opus bitrate below 6 or
  above 510; extensions \<open>mp3\<close>, \<open>ogg\<close>, \<open>m4a\<close> or \<open>mp4\<close>, \<open>opus\<close>. An Opus bitrate of
  600 gives the error that names the range.
\<close>

theorem audio_builders_validate_before_building:
  "(isl (MP3AudioHandler_build_encode_command i out cfg sc) \<longleftrightarrow>
      mp3_quality (audio cfg) < 0 \<or> 9 < mp3_quality (audio cfg)
      \<or> lstrip ''.'' (lower (path_suffix out)) \<notin> {''mp3''})
   \<and> (isl (VorbisAudioHandler_build_encode_command fs i out cfg sc) \<longleftrightarrow>
      float_lt (vorbis_quality (audio cfg)) (Finite True 1 0)
      \<or> float_gt (vorbis_quality (audio cfg)) (Finite False 10 0)
      \<or> lstrip ''.'' (lower (path_suffix out)) \<notin> {''ogg''})
   \<and> (vorbis_quality (audio cfg) = Finite neg m e \<longrightarrow>
        (isl (VorbisAudioHandler_build_encode_command fs i out cfg sc) \<longleftrightarrow>
           finite_value neg m e < - 1 \<or> 10 < finite_value neg m e
           \<or> lstrip ''.'' (lower (path_suffix out)) \<notin> {''ogg''}))
   \<and> (isl (AACAudioHandler_build_encode_command i out cfg sc) \<longleftrightarrow>
      aac_vbr_mode (audio cfg) < 1 \<or> 5 < aac_vbr_mode (audio cfg)
      \<or> lstrip ''.'' (lower (path_suffix out)) \<notin> {''m4a'', ''mp4''})
   \<and> (isl (OpusAudioHandler_build_encode_command i out cfg sc) \<longleftrightarrow>
      opus_bitrate_kbps (audio cfg) < 6 \<or> 510 < opus_bitrate_kbps (audio cfg)
      \<or> lstrip ''.'' (lower (path_suffix out)) \<notin> {''opus''})
   \<and> (audio_build_encode_command fs a i out cfg sc = Inl err \<longrightarrow> (\<exists>msg. err = ValueError msg))
   \<and> (opus_bitrate_kbps (audio cfg) = 600 \<longrightarrow>
        OpusAudioHandler_build_encode_command i out cfg sc
          = Inl (ValueError ''opus_bitrate_kbps must be between 6 and 510 (got 600)''))"
proof (intro conjI impI)
  show "isl (VorbisAudioHandler_build_encode_command fs i out cfg sc) \<longleftrightarrow>
           finite_value neg m e < - 1 \<or> 10 < finite_value neg m e
           \<or> lstrip ''.'' (lower (path_suffix out)) \<notin> {''ogg''}"
    if "vorbis_quality (audio cfg) = Finite neg m e"
    using that float_lt_finite_iff [of neg m e True 1 0] float_lt_finite_iff [of False 10 0 neg m e]
    by (simp add: Vorbis_fails_iff float_gt_def finite_value_minus_one finite_value_ten)
  show "OpusAudioHandler_build_encode_command i out cfg sc
          = Inl (ValueError ''opus_bitrate_kbps must be between 6 and 510 (got 600)'')"
    if "opus_bitrate_kbps (audio cfg) = 600"
    using that
    by (simp add: OpusAudioHandler_build_encode_command_def OpusAudioHandler_validate_config_def
        ensure_int_in_range_def num_eval)
  show "\<exists>msg. err = ValueError msg" if "audio_build_encode_command fs a i out cfg sc = Inl err"
    using that by (rule audio_error_is_ValueError)
qed (rule MP3_fails_iff Vorbis_fails_iff AAC_fails_iff Opus_fails_iff)+

text \<open>
  An Opus bitrate of 600 is rejected with the range in the message, the MP3 builder
  rejects the extension \<open>opus\<close>, and the Vorbis builder accepts quality \<open>6.0\<close> with \<open>ogg\<close>.
\<close>

theorem opus_600_kbps_is_rejected:
  "opus_bitrate_kbps (audio (example_cfg\<lparr>audio := example_audio_cfg\<lparr>opus_bitrate_kbps := 600\<rparr>\<rparr>)) = 600
   \<and> OpusAudioHandler_build_encode_command ''in.wav'' ''out.opus''
        (example_cfg\<lparr>audio := example_audio_cfg\<lparr>opus_bitrate_kbps := 600\<rparr>\<rparr>) False
      = Inl (ValueError ''opus_bitrate_kbps must be between 6 and 510 (got 600)'')
   \<and> vorbis_quality (audio (example_cfg\<lparr>audio := example_audio_cfg\<lparr>opus_bitrate_kbps := 600\<rparr>\<rparr>))
        = Finite False 6 0
   \<and> \<not> isl (VorbisAudioHandler_build_encode_command format_3f ''in.wav'' ''out.ogg''
        (example_cfg\<lparr>audio := example_audio_cfg\<lparr>opus_bitrate_kbps := 600\<rparr>\<rparr>) False)
   \<and> isl (MP3AudioHandler_build_encode_command ''in.wav'' ''out.opus''
        (example_cfg\<lparr>audio := example_audio_cfg\<lparr>opus_bitrate_kbps := 600\<rparr>\<rparr>) False)
   \<and> audio_build_encode_command format_3f OpusAudioHandler ''in.wav'' ''out.opus''
        (example_cfg\<lparr>audio := example_audio_cfg\<lparr>opus_bitrate_kbps := 600\<rparr>\<rparr>) False
      = Inl (ValueError ''opus_bitrate_kbps must be between 6 and 510 (got 600)'')"
  using audio_builders_validate_before_building
    [where cfg = "example_cfg\<lparr>audio := example_audio_cfg\<lparr>opus_bitrate_kbps := 600\<rparr>\<rparr>"
       and i = "''in.wav''" and out = "''out.opus''" and sc = False and fs = format_3f
       and a = OpusAudioHandler and neg = False and m = 6 and e = 0
       and err = "ValueError ''opus_bitrate_kbps must be between 6 and 510 (got 600)''"]
    audio_builders_validate_before_building
    [where cfg = "example_cfg\<lparr>audio := example_audio_cfg\<lparr>opus_bitrate_kbps := 600\<rparr>\<rparr>"
       and i = "''in.wav''" and out = "''out.ogg''" and sc = False and fs = format_3f
       and a = OpusAudioHandler and neg = False and m = 6 and e = 0
       and err = "ValueError ''opus_bitrate_kbps must be between 6 and 510 (got 600)''"]
  by (simp add: cfg_eval path_eval finite_value_def float_gt_def signed_scaled_def)

text \<open>
  Claim C8 fails for a Vorbis quality that is NaN. NaN is not in \<open>[-1.0, 10.0]\<close>, but
  \<open>_ensure_float_in_range\<close> tests \<open>value < low or value > high\<close>, both comparisons are
  false, nothing is raised, and the builder returns a command that passes the quality to
  ffmpeg as printed by \<open>str\<close>.
\<close>

theorem vorbis_nan_quality_is_not_rejected:
  "VorbisAudioHandler_build_encode_command fs ''in.wav'' ''out.ogg''
     (example_cfg\<lparr>audio := example_audio_cfg\<lparr>vorbis_quality := NaN\<rparr>\<rparr>) False
   = Inr [''ffmpeg'', ''-y'', ''-hide_banner'', ''-i'', ''in.wav'', ''-map'', ''0:a:0?'',
          ''-vn'', ''-sn'', ''-dn'', ''-c:a'', ''libvorbis'', ''-q:a'', fs NaN, ''out.ogg'']"
  by (simp add: VorbisAudioHandler_build_encode_command_def VorbisAudioHandler_validate_config_def
      VorbisAudioHandler_capabilities_def ensure_float_in_range_def float_gt_def
      audio_force_extension_def audio_common_prefix_def cfg_eval path_eval)

subsection \<open>What a built command depends on\<close>

lemmas video_eval =
  AV1Handler_build_encode_command_def hw_decoder_args_def rate_cap_args_def vf_args_def
  vf_within_def fps_filters_def faststart_args_def

text \<open>
  Claim C1 as stated fails for AV1. With software encoding, the same paths, stream,
  configuration, accelerator and flags give the SVT-AV1 command where ffmpeg has every
  encoder and the generic \<open>av1\<close> command where it has no AV1 encoder.
\<close>

theorem av1_command_differs_between_installations:
  "video_build_encode_command encoders_all AV1Handler ''in.mp4'' ''out.mkv'' example_video
       example_cfg None False False
     = [''ffmpeg'', ''-y'', ''-hide_banner'', ''-i'', ''in.mp4'', ''-c:v'', ''libsvtav1'',
        ''-crf'', ''23'', ''-preset'', ''4'', ''-g'', ''240'', ''-pix_fmt'', ''yuv420p10le'',
        ''-vsync'', ''cfr'', ''-an'', ''out.mkv'']
   \<and> video_build_encode_command encoders_none AV1Handler ''in.mp4'' ''out.mkv'' example_video
       example_cfg None False False
     = [''ffmpeg'', ''-y'', ''-hide_banner'', ''-i'', ''in.mp4'', ''-c:v'', ''av1'',
        ''-vsync'', ''cfr'', ''-an'', ''out.mkv'']
   \<and> video_build_encode_command encoders_all AV1Handler ''in.mp4'' ''out.mkv'' example_video
       example_cfg None False False
     \<noteq> video_build_encode_command encoders_none AV1Handler ''in.mp4'' ''out.mkv'' example_video
       example_cfg None False False"
  by (simp add: video_eval encoders_all_def encoders_none_def cfg_eval path_eval num_eval)

lemma AV1_same_probe:
  assumes "(hw_enc \<and> accel \<noteq> None)
           \<or> (probe_a ''libsvtav1'' = probe_b ''libsvtav1'' \<and> probe_a ''libaom-av1'' = probe_b ''libaom-av1'')"
  shows "AV1Handler_build_encode_command probe_a i out v cfg accel hw_enc hw_dec
         = AV1Handler_build_encode_command probe_b i out v cfg accel hw_enc hw_dec"
  using assms by (auto simp: AV1Handler_build_encode_command_def Let_def)

lemma audio_reads_audio_section:
  assumes "audio cfg_a = audio cfg_b"
  shows "audio_build_encode_command fs a i out cfg_a sc = audio_build_encode_command fs a i out cfg_b sc"
  using assms
  by (cases a)
     (simp_all add: MP3AudioHandler_build_encode_command_def MP3AudioHandler_validate_config_def
        VorbisAudioHandler_build_encode_command_def VorbisAudioHandler_validate_config_def
        AACAudioHandler_build_encode_command_def AACAudioHandler_validate_config_def
        OpusAudioHandler_build_encode_command_def OpusAudioHandler_validate_config_def
        Let_def split: sum.splits)

text \<open>
  Claim C1, amended. The H.264, VP8, HEVC and VP9 builders return the same token sequence
  for the same arguments whatever the installed ffmpeg offers. The AV1 builder also reads
  which of the encoders \<open>libsvtav1\<close> and \<open>libaom-av1\<close> the installed ffmpeg has: two calls
  with the same arguments return the same sequence when hardware encoding is selected (flag
  set and accelerator present) or when both calls get the same two answers. The audio
  builders read their paths, the copy flag and the audio section of the configuration only.
\<close>

theorem build_encode_command_determined_by_arguments_and_encoder_probe:
  "(h \<noteq> AV1Handler \<or> (hw_enc \<and> accel \<noteq> None)
      \<or> (probe_a ''libsvtav1'' = probe_b ''libsvtav1'' \<and> probe_a ''libaom-av1'' = probe_b ''libaom-av1'')
     \<longrightarrow> video_build_encode_command probe_a h i out v cfg accel hw_enc hw_dec
         = video_build_encode_command probe_b h i out v cfg accel hw_enc hw_dec)
   \<and> (audio cfg_a = audio cfg_b
     \<longrightarrow> audio_build_encode_command fs a i out cfg_a sc
         = audio_build_encode_command fs a i out cfg_b sc)"
proof (intro conjI impI)
  assume c: "h \<noteq> AV1Handler \<or> (hw_enc \<and> accel \<noteq> None)
      \<or> (probe_a ''libsvtav1'' = probe_b ''libsvtav1'' \<and> probe_a ''libaom-av1'' = probe_b ''libaom-av1'')"
  show "video_build_encode_command probe_a h i out v cfg accel hw_enc hw_dec
         = video_build_encode_command probe_b h i out v cfg accel hw_enc hw_dec"
  proof (cases h)
    case AV1Handler
    with c have "(hw_enc \<and> accel \<noteq> None)
      \<or> (probe_a ''libsvtav1'' = probe_b ''libsvtav1'' \<and> probe_a ''libaom-av1'' = probe_b ''libaom-av1'')"
      by simp
    then show ?thesis using AV1Handler by (simp add: AV1_same_probe)
  qed simp_all
next
  assume "audio cfg_a = audio cfg_b"
  then show "audio_build_encode_command fs a i out cfg_a sc
         = audio_build_encode_command fs a i out cfg_b sc"
    by (rule audio_reads_audio_section)
qed

text \<open>
  The H.264 command, and the AV1 command with hardware encoding, are the same on both
  installations; the Opus command does not change with the general timeout.
\<close>

theorem builders_agree_across_installations:
  "H264Handler \<noteq> AV1Handler
   \<and> video_build_encode_command encoders_all H264Handler ''in.mkv'' ''out.mp4'' example_video
        example_cfg None False False
     = video_build_encode_command encoders_none H264Handler ''in.mkv'' ''out.mp4'' example_video
        example_cfg None False False
   \<and> Some get_qsv_decoder \<noteq> None
   \<and> video_build_encode_command encoders_all AV1Handler ''in.mkv'' ''out.mkv'' example_video
        example_cfg (Some get_qsv_decoder) True True
     = video_build_encode_command encoders_none AV1Handler ''in.mkv'' ''out.mkv'' example_video
        example_cfg (Some get_qsv_decoder) True True
   \<and> audio example_cfg = audio (example_cfg\<lparr>general := general example_cfg\<lparr>timeout_seconds := 60\<rparr>\<rparr>)
   \<and> audio_build_encode_command format_3f OpusAudioHandler ''in.wav'' ''out.opus'' example_cfg False
     = audio_build_encode_command format_3f OpusAudioHandler ''in.wav'' ''out.opus''
         (example_cfg\<lparr>general := general example_cfg\<lparr>timeout_seconds := 60\<rparr>\<rparr>) False"
  using build_encode_command_determined_by_arguments_and_encoder_probe
    [where h = H264Handler and probe_a = encoders_all and probe_b = encoders_none and i = "''in.mkv''"
       and out = "''out.mp4''" and v = example_video and cfg = example_cfg and accel = None
       and hw_enc = False and hw_dec = False and cfg_a = example_cfg and cfg_b = example_cfg]
    build_encode_command_determined_by_arguments_and_encoder_probe
    [where h = AV1Handler and probe_a = encoders_all and probe_b = encoders_none and i = "''in.mkv''"
       and out = "''out.mkv''" and v = example_video and cfg = example_cfg
       and accel = "Some get_qsv_decoder" and hw_enc = True and hw_dec = True
       and cfg_a = example_cfg and cfg_b = example_cfg]
    build_encode_command_determined_by_arguments_and_encoder_probe
    [where h = H264Handler and probe_a = encoders_all and probe_b = encoders_none
       and i = "''in.wav''" and out = "''out.opus''" and fs = format_3f and a = OpusAudioHandler
       and sc = False and cfg_a = example_cfg
       and cfg_b = "example_cfg\<lparr>general := general example_cfg\<lparr>timeout_seconds := 60\<rparr>\<rparr>"]
  by simp

subsection \<open>Selection of the measurement block\<close>

lemma findall_blocks_skip:
  "CHR ''{'' \<notin> set pre \<Longrightarrow> findall_blocks None (pre @ s) = findall_blocks None s"
  by (induction pre) auto

lemma findall_blocks_close:
  "CHR ''}'' \<notin> set body \<Longrightarrow>
   findall_blocks (Some blob) (body @ CHR ''}'' # rest)
     = (blob @ body @ ''}'') # findall_blocks None rest"
  by (induction body arbitrary: blob) auto

lemma findall_blocks_unclosed:
  "CHR ''}'' \<notin> set s \<Longrightarrow> findall_blocks st s = []"
proof (induction s arbitrary: st)
  case Nil
  show ?case by (cases st) simp_all
next
  case (Cons c cs)
  then show ?case by (cases st) auto
qed

lemma findall_blocks_block:
  assumes "CHR ''{'' \<notin> set pre" and "CHR ''}'' \<notin> set body"
  shows "findall_blocks None (pre @ ''{'' @ body @ ''}'' @ rest)
           = (''{'' @ body @ ''}'') # findall_blocks None rest"
proof -
  have "findall_blocks None (pre @ ''{'' @ body @ ''}'' @ rest)
          = findall_blocks None (''{'' @ body @ ''}'' @ rest)"
    using assms(1) by (rule findall_blocks_skip)
  also have "\<dots> = findall_blocks (Some ''{'') (body @ CHR ''}'' # rest)"
    by simp
  also have "\<dots> = (''{'' @ body @ ''}'') # findall_blocks None rest"
    using assms(2) by (rule findall_blocks_close)
  finally show ?thesis .
qed

lemma parse_candidates_last:
  "\<forall>blob \<in> set blobs. decodes_or_fails (ld blob) \<Longrightarrow>
   parse_candidates ld blobs last_good =
     Inr (case qualifying_blocks ld blobs of
            [] \<Rightarrow> last_good
          | obj # objs \<Rightarrow> Some (last (obj # objs)))"
proof (induction blobs arbitrary: last_good)
  case Nil
  show ?case by (simp add: qualifying_blocks_def)
next
  case (Cons blob blobs)
  then have ok: "decodes_or_fails (ld blob)"
    and rest: "\<forall>b \<in> set blobs. decodes_or_fails (ld b)"
    by simp_all
  have tl: "qualifying_blocks ld (blob # blobs)
      = (case ld blob of
           Inr (JObj obj) \<Rightarrow> if has_loudnorm_keys obj then [obj] else []
         | other \<Rightarrow> []) @ qualifying_blocks ld blobs"
    by (simp add: qualifying_blocks_def)
  show ?case
  proof (cases "ld blob")
    case (Inl e)
    with ok obtain msg where "e = JSONDecodeError msg"
      by (cases e) simp_all
    with Inl show ?thesis using Cons.IH [OF rest, of last_good] by (simp add: tl)
  next
    case (Inr j)
    show ?thesis
    proof (cases j)
      case (JObj obj)
      show ?thesis
      proof (cases "has_loudnorm_keys obj")
        case True
        then show ?thesis
          using Inr JObj Cons.IH [OF rest, of "Some obj"]
          by (simp add: tl split: list.splits)
      next
        case False
        then show ?thesis using Inr JObj Cons.IH [OF rest, of last_good] by (simp add: tl)
      qed
    qed (use Inr Cons.IH [OF rest, of last_good] in \<open>simp_all add: tl\<close>)
  qed
qed

lemma parse_candidates_raises:
  "ld blob = Inl e \<Longrightarrow> \<not> decodes_or_fails (ld blob) \<Longrightarrow>
   parse_candidates ld (blob # blobs) last_good = Inl e"
  by (cases e) simp_all

text \<open>
  Where \<open>json.loads\<close> raises nothing but \<open>JSONDecodeError\<close> on the candidates, the loop
  returns the last candidate that parses to a dict with the four keys \<open>input_i\<close>,
  \<open>input_tp\<close>, \<open>input_lra\<close>, \<open>input_thresh\<close>, and raises the \<open>ValueError\<close> of a parse
  failure when there is none. A candidate runs from a \<open>{\<close> to the first \<open>}\<close> behind it,
  and a \<open>{\<close> with no \<open>}\<close> behind it gives no candidate.
\<close>

theorem parse_loudnorm_json_selects_last_qualifying_candidate:
  "((\<forall>blob \<in> set (findall_blocks None stderr). decodes_or_fails (ld blob))
      \<longrightarrow> parse_loudnorm_json ld stderr =
          (case qualifying_blocks ld (findall_blocks None stderr) of
             [] \<Rightarrow> Inl (ValueError ''Could not locate loudnorm JSON output in ffmpeg stderr'')
           | obj # objs \<Rightarrow> Inr (last (obj # objs))))
   \<and> (CHR ''{'' \<notin> set pre \<and> CHR ''}'' \<notin> set body
      \<longrightarrow> findall_blocks None (pre @ ''{'' @ body @ ''}'' @ rest)
            = (''{'' @ body @ ''}'') # findall_blocks None rest)
   \<and> (CHR ''}'' \<notin> set rest \<longrightarrow> findall_blocks None rest = [])"
proof (intro conjI impI)
  show "parse_loudnorm_json ld stderr =
     (case qualifying_blocks ld (findall_blocks None stderr) of
        [] \<Rightarrow> Inl (ValueError ''Could not locate loudnorm JSON output in ffmpeg stderr'')
      | obj # objs \<Rightarrow> Inr (last (obj # objs)))"
    if "\<forall>blob \<in> set (findall_blocks None stderr). decodes_or_fails (ld blob)"
    using that
    by (simp add: parse_loudnorm_json_def parse_candidates_last Let_def split: list.splits)
  show "findall_blocks None (pre @ ''{'' @ body @ ''}'' @ rest)
            = (''{'' @ body @ ''}'') # findall_blocks None rest"
    if "CHR ''{'' \<notin> set pre \<and> CHR ''}'' \<notin> set body"
    using that findall_blocks_block [of pre body rest] by blast
  show "findall_blocks None rest = []" if "CHR ''}'' \<notin> set rest"
    using that by (rule findall_blocks_unclosed)
qed

lemmas loads_eval =
  loads_flat_def json_ws_def is_digit_def plain_char_def control_chars_def dict_set_def
  example_block_first_def example_block_last_def example_block_other_def
  example_block_nested_def

lemma example_blocks_found:
  "findall_blocks None (concat example_lines) = [example_block_first, example_block_last]"
  by (simp add: example_lines_def loads_eval)

lemma example_block_first_loads:
  "loads_flat example_block_first =
     Inr (JObj [(''input_i'', JStr ''-25.00''), (''input_tp'', JStr ''-5.00''),
                (''input_lra'', JStr ''6.00''), (''input_thresh'', JStr ''-35.00''),
                (''target_offset'', JStr ''1.00'')])"
  by (simp add: loads_eval)

lemma example_block_last_loads:
  "loads_flat example_block_last =
     Inr (JObj [(''input_i'', JStr ''-20.20''), (''input_tp'', JStr ''-3.10''),
                (''input_lra'', JStr ''7.40''), (''input_thresh'', JStr ''-30.20''),
                (''target_offset'', JStr ''3.80'')])"
  by (simp add: loads_eval)

lemma example_block_other_loads:
  "loads_flat example_block_other = Inr (JObj [(''format'', JStr ''json'')])"
  by (simp add: loads_eval)

text \<open>
  Of the three blocks of this output the second, the last one with the four keys, is
  returned, not the first and not the last; a text with an opening brace only is a parse
  failure.
\<close>

theorem parse_loudnorm_json_last_qualifying_of_three:
  "findall_blocks None (concat example_lines @ example_block_other)
     = [example_block_first, example_block_last, example_block_other]
   \<and> parse_loudnorm_json loads_flat (concat example_lines @ example_block_other)
       = Inr [(''input_i'', JStr ''-20.20''), (''input_tp'', JStr ''-3.10''),
              (''input_lra'', JStr ''7.40''), (''input_thresh'', JStr ''-30.20''),
              (''target_offset'', JStr ''3.80'')]
   \<and> CHR ''}'' \<notin> set ''frame= 10 { time=00:00:01.00''
   \<and> parse_loudnorm_json loads_flat ''frame= 10 { time=00:00:01.00''
       = Inl (ValueError ''Could not locate loudnorm JSON output in ffmpeg stderr'')"
proof -
  have found: "findall_blocks None (concat example_lines @ example_block_other)
     = [example_block_first, example_block_last, example_block_other]"
    by (simp add: example_lines_def loads_eval)
  have none: "findall_blocks None ''frame= 10 { time=00:00:01.00'' = []"
    by simp
  note sel = parse_loudnorm_json_selects_last_qualifying_candidate
    [where ld = loads_flat and stderr = "concat example_lines @ example_block_other"
       and pre = "[]" and body = "[]" and rest = "''frame= 10 { time=00:00:01.00''"]
  note fail = parse_loudnorm_json_selects_last_qualifying_candidate
    [where ld = loads_flat and stderr = "''frame= 10 { time=00:00:01.00''"
       and pre = "[]" and body = "[]" and rest = "''frame= 10 { time=00:00:01.00''"]
  have a: "parse_loudnorm_json loads_flat (concat example_lines @ example_block_other)
       = Inr [(''input_i'', JStr ''-20.20''), (''input_tp'', JStr ''-3.10''),
              (''input_lra'', JStr ''7.40''), (''input_thresh'', JStr ''-30.20''),
              (''target_offset'', JStr ''3.80'')]"
    using sel
    by (simp add: found example_block_first_loads example_block_last_loads
        example_block_other_loads has_loudnorm_keys_def qualifying_blocks_def)
  have b: "parse_loudnorm_json loads_flat ''frame= 10 { time=00:00:01.00''
       = Inl (ValueError ''Could not locate loudnorm JSON output in ffmpeg stderr'')"
    using fail by (simp add: none qualifying_blocks_def)
  show ?thesis using found a b by simp
qed

lemma read_number_digits:
  "is_digit c \<Longrightarrow> ds \<noteq> [] \<Longrightarrow> hd ds \<noteq> CHR ''0'' \<Longrightarrow>
   read_object (InNumber k ds) d (replicate n c @ rest)
     = read_object (InNumber k (ds @ replicate n c)) d rest"
proof (induction n arbitrary: ds)
  case 0
  show ?case by simp
next
  case (Suc n)
  from Suc.prems have ne: "ds \<noteq> ''0''" by auto
  have "read_object (InNumber k ds) d (replicate (Suc n) c @ rest)
      = read_object (InNumber k (ds @ [c])) d (replicate n c @ rest)"
    using Suc.prems(1) ne by simp
  also have "\<dots> = read_object (InNumber k ((ds @ [c]) @ replicate n c)) d rest"
    using Suc.prems by (intro Suc.IH) simp_all
  finally show ?case by (simp add: replicate_app_Cons_same)
qed

lemma example_block_overlong_loads: "loads_flat example_block_overlong = Inl (ValueError [])"
proof -
  have "loads_flat example_block_overlong
      = read_object (InNumber ''input_i'' ''7'') [] (replicate 4300 (CHR ''7'') @ ''}'')"
    by (simp add: loads_flat_def example_block_overlong_def json_ws_def is_digit_def
        plain_char_def control_chars_def)
  also have "\<dots> = read_object (InNumber ''input_i'' (''7'' @ replicate 4300 (CHR ''7''))) [] ''}''"
    by (rule read_number_digits) (simp_all add: is_digit_def)
  also have "\<dots> = Inl (ValueError [])"
    by (simp add: is_digit_def)
  finally show ?thesis .
qed

lemma overlong_blocks_found:
  "findall_blocks None (example_block_overlong @ '' '' @ example_block_last)
     = [example_block_overlong, example_block_last]"
proof -
  have \<open>findall_blocks None
          ([] @ ''{'' @ (''"input_i" : 7'' @ replicate 4300 (CHR ''7'')) @ ''}''
             @ ('' '' @ example_block_last))
      = (''{'' @ (''"input_i" : 7'' @ replicate 4300 (CHR ''7'')) @ ''}'')
          # findall_blocks None ('' '' @ example_block_last)\<close>
    by (rule findall_blocks_block) simp_all
  then show ?thesis
    by (simp add: example_block_overlong_def example_block_last_def)
qed

lemma nested_blocks_found:
  \<open>findall_blocks None (example_block_first @ '' '' @ example_block_nested)
     = [example_block_first,
        ''{"input_i" : "-20.20", "input_tp" : "-3.10", "input_lra" : "7.40", "input_thresh" : "-30.20", "target_offset" : "3.80", "extra" : {"k" : "v"}'']\<close>
  by (simp add: example_block_first_def example_block_nested_def)

lemma nested_candidate_loads:
  \<open>loads_flat ''{"input_i" : "-20.20", "input_tp" : "-3.10", "input_lra" : "7.40", "input_thresh" : "-30.20", "target_offset" : "3.80", "extra" : {"k" : "v"}''
     = Inl (JSONDecodeError [])\<close>
  by (simp add: loads_eval)

text \<open>
  Claim C4 fails on two texts. In the first, a block whose \<open>input_i\<close> is an integer
  literal of 4301 digits is followed by a block with the four keys: \<open>json.loads\<close> raises
  a plain \<open>ValueError\<close> on the first block, the clause \<open>except json.JSONDecodeError\<close> does
  not catch it, and it leaves \<open>_parse_loudnorm_json\<close> although the last block
  qualifies. In the second, a flat block with the four keys is followed by a block with
  the four keys that holds a nested object: the candidate for the second block ends at
  the first closing brace, does not parse, and the first block is returned.
\<close>

theorem parse_loudnorm_json_misses_last_qualifying_block:
  "findall_blocks None (example_block_overlong @ '' '' @ example_block_last)
     = [example_block_overlong, example_block_last]
   \<and> loads_flat example_block_last =
       Inr (JObj [(''input_i'', JStr ''-20.20''), (''input_tp'', JStr ''-3.10''),
                  (''input_lra'', JStr ''7.40''), (''input_thresh'', JStr ''-30.20''),
                  (''target_offset'', JStr ''3.80'')])
   \<and> parse_loudnorm_json loads_flat (example_block_overlong @ '' '' @ example_block_last)
       = Inl (ValueError [])
   \<and> parse_loudnorm_json loads_flat (example_block_first @ '' '' @ example_block_nested)
       = Inr [(''input_i'', JStr ''-25.00''), (''input_tp'', JStr ''-5.00''),
              (''input_lra'', JStr ''6.00''), (''input_thresh'', JStr ''-35.00''),
              (''target_offset'', JStr ''1.00'')]"
proof (intro conjI)
  show "findall_blocks None (example_block_overlong @ '' '' @ example_block_last)
     = [example_block_overlong, example_block_last]"
    by (rule overlong_blocks_found)
  show "loads_flat example_block_last =
       Inr (JObj [(''input_i'', JStr ''-20.20''), (''input_tp'', JStr ''-3.10''),
                  (''input_lra'', JStr ''7.40''), (''input_thresh'', JStr ''-30.20''),
                  (''target_offset'', JStr ''3.80'')])"
    by (rule example_block_last_loads)
  show "parse_loudnorm_json loads_flat (example_block_overlong @ '' '' @ example_block_last)
       = Inl (ValueError [])"
    by (simp only: parse_loudnorm_json_def overlong_blocks_found Let_def)
       (simp add: example_block_overlong_loads)
  show "parse_loudnorm_json loads_flat (example_block_first @ '' '' @ example_block_nested)
       = Inr [(''input_i'', JStr ''-25.00''), (''input_tp'', JStr ''-5.00''),
              (''input_lra'', JStr ''6.00''), (''input_thresh'', JStr ''-35.00''),
              (''target_offset'', JStr ''1.00'')]"
    by (simp only: parse_loudnorm_json_def nested_blocks_found Let_def)
       (simp add: nested_candidate_loads example_block_first_loads has_loudnorm_keys_def)
qed

subsection \<open>Validation of the measurements\<close>

lemma py_float_errors:
  "py_float sf val = Inl e \<Longrightarrow>
     (int_out_of_float_range val \<and> e = OverflowError ''int too large to convert to float'')
     \<or> (\<not> int_out_of_float_range val \<and> (e = TypeError [] \<or> e = ValueError []))"
  by (cases "(sf, val)" rule: py_float.cases)
     (auto simp: float_of_int_def split: option.splits if_splits)

lemma py_float_overflow:
  "int_out_of_float_range val \<Longrightarrow>
   py_float sf val = Inl (OverflowError ''int too large to convert to float'')"
  by (cases val rule: int_out_of_float_range.cases) (simp_all add: float_of_int_def)

lemma is_finite_number_in_range:
  assumes "\<not> int_out_of_float_range val"
  shows "is_finite_number sf val = Inr (finite_convertible sf val)"
proof (cases "py_float sf val")
  case (Inl e)
  with assms py_float_errors [of sf val e] have "e = TypeError [] \<or> e = ValueError []"
    by auto
  with Inl show ?thesis
    by (auto simp: is_finite_number_def finite_convertible_def)
next
  case (Inr v)
  then show ?thesis by (simp add: is_finite_number_def finite_convertible_def)
qed

lemma is_finite_number_overflow:
  "int_out_of_float_range val \<Longrightarrow>
   is_finite_number sf val = Inl (OverflowError ''int too large to convert to float'')"
  by (simp add: is_finite_number_def py_float_overflow)

lemma bad_fields_in_range:
  "\<forall>(field, val) \<in> set items. \<not> int_out_of_float_range val \<Longrightarrow>
   bad_fields sf items = Inr (map fst (filter (\<lambda>(field, val). \<not> finite_convertible sf val) items))"
  by (induction items) (auto simp: is_finite_number_in_range)

lemma finite_convertible_float:
  "finite_convertible sf val \<Longrightarrow> \<exists>v. py_float sf val = Inr v \<and> isfinite v"
  by (auto simp: finite_convertible_def split: sum.splits)

text \<open>
  Where no field is an \<open>int\<close> beyond the range of a double, \<open>_extract_measurements\<close> does
  what is expected of it: it succeeds exactly when all five fields convert to finite
  numbers, and otherwise raises one \<open>ValueError\<close> that lists the invalid fields in order.
\<close>

lemma extract_measurements_in_range:
  assumes "\<not> int_out_of_float_range (map_of obj ''input_i'')"
      and "\<not> int_out_of_float_range (map_of obj ''input_tp'')"
      and "\<not> int_out_of_float_range (map_of obj ''input_lra'')"
      and "\<not> int_out_of_float_range (map_of obj ''input_thresh'')"
      and "\<not> int_out_of_float_range (map_of obj ''target_offset'')"
  shows "extract_measurements sf obj =
     (let bad = map fst (filter (\<lambda>(field, val). \<not> finite_convertible sf val)
                  [(''measured_I'', map_of obj ''input_i''),
                   (''measured_TP'', map_of obj ''input_tp''),
                   (''measured_LRA'', map_of obj ''input_lra''),
                   (''measured_thresh'', map_of obj ''input_thresh''),
                   (''offset'', map_of obj ''target_offset'')])
      in if bad \<noteq> [] then
           Inl (ValueError (''Invalid loudnorm measurement values: '' @ join '', '' bad))
         else
           Inr \<lparr>measured_I = projr (py_float sf (map_of obj ''input_i'')),
                measured_TP = projr (py_float sf (map_of obj ''input_tp'')),
                measured_LRA = projr (py_float sf (map_of obj ''input_lra'')),
                measured_thresh = projr (py_float sf (map_of obj ''input_thresh'')),
                offset = projr (py_float sf (map_of obj ''target_offset'')),
                raw = obj\<rparr>)"
proof -
  define items where "items = [(''measured_I'', map_of obj ''input_i''),
                   (''measured_TP'', map_of obj ''input_tp''),
                   (''measured_LRA'', map_of obj ''input_lra''),
                   (''measured_thresh'', map_of obj ''input_thresh''),
                   (''offset'', map_of obj ''target_offset'')]"
  have "\<forall>(field, val) \<in> set items. \<not> int_out_of_float_range val"
    using assms by (simp add: items_def)
  then have bad: "bad_fields sf items
      = Inr (map fst (filter (\<lambda>(field, val). \<not> finite_convertible sf val) items))"
    by (rule bad_fields_in_range)
  show ?thesis
  proof (cases "map fst (filter (\<lambda>(field, val). \<not> finite_convertible sf val) items) = []")
    case False
    then show ?thesis
      using bad unfolding extract_measurements_def Let_def items_def [symmetric] by simp
  next
    case True
    then have all: "\<forall>(field, val) \<in> set items. finite_convertible sf val"
      by (auto simp: filter_empty_conv)
    obtain v1 where v1: "py_float sf (map_of obj ''input_i'') = Inr v1"
      using all finite_convertible_float [of sf "map_of obj ''input_i''"] by (auto simp: items_def)
    obtain v2 where v2: "py_float sf (map_of obj ''input_tp'') = Inr v2"
      using all finite_convertible_float [of sf "map_of obj ''input_tp''"] by (auto simp: items_def)
    obtain v3 where v3: "py_float sf (map_of obj ''input_lra'') = Inr v3"
      using all finite_convertible_float [of sf "map_of obj ''input_lra''"] by (auto simp: items_def)
    obtain v4 where v4: "py_float sf (map_of obj ''input_thresh'') = Inr v4"
      using all finite_convertible_float [of sf "map_of obj ''input_thresh''"] by (auto simp: items_def)
    obtain v5 where v5: "py_float sf (map_of obj ''target_offset'') = Inr v5"
      using all finite_convertible_float [of sf "map_of obj ''target_offset''"] by (auto simp: items_def)
    show ?thesis
      using bad True v1 v2 v3 v4 v5
      unfolding extract_measurements_def Let_def items_def [symmetric] by simp
  qed
qed

text \<open>
  Claim C7 fails on an \<open>int\<close> beyond the range of a double. With \<open>input_i\<close> the integer
  \<open>10^400\<close> and \<open>input_tp\<close> NaN, \<open>float\<close> raises \<open>OverflowError\<close> on the first field,
  \<open>_is_finite_number\<close> catches \<open>TypeError\<close> and \<open>ValueError\<close> only, and the error leaves
  \<open>_extract_measurements\<close>: no \<open>ValueError\<close> is raised and no invalid field is named.
\<close>

theorem extract_measurements_overflow_escapes:
  "extract_measurements sf
     [(''input_i'', JInt (10 ^ 400)), (''input_tp'', JFloat NaN),
      (''input_lra'', JFloat (Finite False 4165829655317709 (- 49))),
      (''input_thresh'', JFloat (Finite True 8500544296661811 (- 48))),
      (''target_offset'', JFloat (Finite False 4278419646001971 (- 50)))]
   = Inl (OverflowError ''int too large to convert to float'')"
  by (simp add: extract_measurements_def is_finite_number_def float_of_int_def)

lemma extract_measurements_example:
  "extract_measurements example_str_to_float
     [(''input_i'', JStr ''-20.20''), (''input_tp'', JStr ''nan''),
      (''input_lra'', JStr ''7.40''), (''input_thresh'', JNull)]
   = Inl (ValueError ''Invalid loudnorm measurement values: measured_TP, measured_thresh, offset'')"
  by (simp add: extract_measurements_def is_finite_number_def example_str_to_float_def)

subsection \<open>The reading loop and its timeout\<close>

lemma read_loop_passes:
  "\<forall>x \<in> set pre. passes start t x \<Longrightarrow>
   read_loop start t (pre @ rest) acc = read_loop start t rest (acc @ lines_of pre)"
proof (induction pre arbitrary: acc)
  case Nil
  show ?case by (simp add: lines_of_def)
next
  case (Cons x pre)
  then have x: "passes start t x" and pre: "\<forall>y \<in> set pre. passes start t y"
    by simp_all
  show ?case
  proof (cases "line x = []")
    case True
    with x have "poll x = None" by (simp add: passes_def)
    with True show ?thesis using Cons.IH [OF pre, of acc] by (simp add: lines_of_def)
  next
    case False
    with x have "\<not> of_int t < clock x - start" by (simp add: passes_def)
    with False show ?thesis
      using Cons.IH [OF pre, of "acc @ [line x]"] by (simp add: lines_of_def)
  qed
qed

lemma read_loop_late:
  "late start t s \<Longrightarrow> read_loop start t (s # rest) acc = Some (TimedOut (acc @ [line s]))"
  by (simp add: late_def)

lemma read_loop_exit:
  "line s = [] \<Longrightarrow> poll s = Some rc \<Longrightarrow> read_loop start t (s # rest) acc = Some (Exited rc acc)"
  by simp

lemma read_loop_timed_out_late:
  "read_loop start t steps acc = Some (TimedOut ls) \<Longrightarrow> \<exists>x \<in> set steps. late start t x"
proof (induction steps arbitrary: acc)
  case Nil
  then show ?case by simp
next
  case (Cons x steps)
  show ?case
  proof (cases "late start t x")
    case True
    then show ?thesis by simp
  next
    case False
    with Cons.prems have "\<exists>acc'. read_loop start t steps acc' = Some (TimedOut ls)"
      by (auto simp: late_def Let_def split: if_splits option.splits)
    with Cons.IH show ?thesis by auto
  qed
qed

lemma read_loop_blocked:
  "\<forall>x \<in> set steps. passes start t x \<Longrightarrow> read_loop start t steps acc = None"
  using read_loop_passes [of steps start t "[]" acc] by simp

lemma analyze_timed_out:
  assumes "popen env = (\<lambda>cmd. Inr proc)" and "has_stderr proc"
      and "read_loop (start_clock env) t (reads proc) [] = Some (TimedOut ls)"
  shows "analyze_loudnorm_two_pass env input targets t cache
        = Some (Inl (RuntimeError (''ffmpeg loudnorm pass 1 timeout after '' @ str_int t @ ''s'')),
                [Terminate, WaitTimeout 5]
                  @ (if exits_on_terminate proc then [] else [Kill, Wait]))"
  using assms by (simp add: analyze_loudnorm_two_pass_def Let_def)

text \<open>
  What the loop does. At the first line read after the bound the process is asked to
  terminate, given up to 5 seconds, killed and waited for if it is still alive, and the
  timeout failure is raised. An empty read from a process that has exited ends the loop
  with no look at the clock; a timeout is raised only at a line read after the bound; and
  while neither such a line nor an exit arrives the loop does not return.
\<close>

theorem timeout_fires_at_first_late_line_only:
  "(popen env = (\<lambda>cmd. Inr proc) \<and> has_stderr proc \<and> reads proc = pre @ s # rest
      \<and> (\<forall>x \<in> set pre. passes (start_clock env) t x) \<and> late (start_clock env) t s
    \<longrightarrow> analyze_loudnorm_two_pass env input targets t cache
        = Some (Inl (RuntimeError (''ffmpeg loudnorm pass 1 timeout after '' @ str_int t @ ''s'')),
                [Terminate, WaitTimeout 5]
                  @ (if exits_on_terminate proc then [] else [Kill, Wait])))
   \<and> ((\<forall>x \<in> set pre. passes start t x) \<and> line s = [] \<and> poll s = Some rc
    \<longrightarrow> read_loop start t (pre @ s # rest) [] = Some (Exited rc (lines_of pre)))
   \<and> (read_loop start t steps acc = Some (TimedOut ls) \<longrightarrow> (\<exists>x \<in> set steps. late start t x))
   \<and> ((\<forall>x \<in> set steps. passes start t x) \<longrightarrow> read_loop start t steps acc = None)"
proof (intro conjI impI)
  assume h: "popen env = (\<lambda>cmd. Inr proc) \<and> has_stderr proc \<and> reads proc = pre @ s # rest
      \<and> (\<forall>x \<in> set pre. passes (start_clock env) t x) \<and> late (start_clock env) t s"
  then have "read_loop (start_clock env) t (reads proc) []
      = Some (TimedOut (lines_of pre @ [line s]))"
    using read_loop_passes [of pre "start_clock env" t "s # rest" "[]"]
          read_loop_late [of "start_clock env" t s rest "lines_of pre"]
    by simp
  with h show "analyze_loudnorm_two_pass env input targets t cache
        = Some (Inl (RuntimeError (''ffmpeg loudnorm pass 1 timeout after '' @ str_int t @ ''s'')),
                [Terminate, WaitTimeout 5]
                  @ (if exits_on_terminate proc then [] else [Kill, Wait]))"
    using analyze_timed_out by blast
next
  assume h: "(\<forall>x \<in> set pre. passes start t x) \<and> line s = [] \<and> poll s = Some rc"
  then show "read_loop start t (pre @ s # rest) [] = Some (Exited rc (lines_of pre))"
    using read_loop_passes [of pre start t "s # rest" "[]"]
          read_loop_exit [of s rc start t rest "lines_of pre"]
    by simp
next
  assume "read_loop start t steps acc = Some (TimedOut ls)"
  then show "\<exists>x \<in> set steps. late start t x" by (rule read_loop_timed_out_late)
next
  assume "\<forall>x \<in> set steps. passes start t x"
  then show "read_loop start t steps acc = None" by (rule read_loop_blocked)
qed

lemmas proc_eval =
  process_ok_def process_exit_1_def process_silent_def process_slow_def example_env_def
  example_lines_def example_targets_def example_measurements_def

lemmas analysis_eval =
  analyze_loudnorm_two_pass_def parse_loudnorm_json_def extract_measurements_def
  is_finite_number_def example_str_to_float_def has_loudnorm_keys_def loads_eval
  strip_def last_chars_def whitespace_def rstrip_def lstrip_def Let_def

text \<open>
  A process whose second line arrives after 301 seconds and that ignores \<open>terminate()\<close>
  is terminated, waited for, killed and waited for again; an empty read from an exited
  process ends the loop.
\<close>

theorem slow_process_is_terminated_and_killed:
  "late 0 300 \<lparr>line = example_lines ! 1, poll = None, clock = 301\<rparr>
   \<and> passes 0 300 \<lparr>line = example_lines ! 1, poll = None, clock = 100\<rparr>
   \<and> \<not> exits_on_terminate process_slow
   \<and> analyze_loudnorm_two_pass (example_env process_slow) ''in.wav'' example_targets 300 False
     = Some (Inl (RuntimeError ''ffmpeg loudnorm pass 1 timeout after 300s''),
             [Terminate, WaitTimeout 5, Kill, Wait])
   \<and> read_loop 0 300 (reads process_silent) []
     = Some (Exited 0 [example_lines ! 2])"
  using timeout_fires_at_first_late_line_only
    [where env = "example_env process_slow" and proc = process_slow
       and pre = "[\<lparr>line = example_lines ! 1, poll = None, clock = 100\<rparr>]"
       and s = "\<lparr>line = example_lines ! 1, poll = None, clock = 301\<rparr>"
       and rest = "[\<lparr>line = example_lines ! 2, poll = None, clock = 302\<rparr>,
                    \<lparr>line = [], poll = Some 0, clock = 302\<rparr>]"
       and t = 300 and input = "''in.wav''" and targets = example_targets and cache = False
       and steps = "[]" and start = 0]
    timeout_fires_at_first_late_line_only
    [where env = "example_env process_slow" and proc = process_ok
       and pre = "[\<lparr>line = example_lines ! 2, poll = None, clock = 1\<rparr>]"
       and s = "\<lparr>line = [], poll = Some 0, clock = 1000\<rparr>"
       and rest = "[]" and rc = 0 and t = 300 and steps = "[]" and start = 0]
  by (simp add: proc_eval passes_def late_def lines_of_def num_eval)

text \<open>
  Claim C2 fails for a process that falls silent: the bound is meant to hold the analysis
  to 300 seconds, but the check sits behind the blocking \<open>readline()\<close> and behind
  \<open>if not line: continue\<close>. A process that prints its measurements after 1 second,
  prints nothing more and exits after 1000 seconds is not terminated and raises no
  timeout: the analysis returns the measurements after 1000 seconds, and the only call on
  the process is the final \<open>wait()\<close>. An empty read from a running process 5000 seconds
  after the start passes without a look at the clock. A process that prints one line and
  then neither prints nor exits keeps the analysis from returning at all.
\<close>

theorem silent_process_is_not_timed_out:
  "exit_clock process_silent - start_clock (example_env process_silent) = 1000
   \<and> analyze_loudnorm_two_pass (example_env process_silent) ''in.wav'' example_targets 300 False
     = Some (Inr example_measurements, [Wait])
   \<and> read_loop 0 300 [\<lparr>line = [], poll = None, clock = 5000\<rparr>,
                      \<lparr>line = [], poll = Some 0, clock = 5000\<rparr>] []
     = Some (Exited 0 [])
   \<and> analyze_loudnorm_two_pass (example_env process_hung) ''in.wav'' example_targets 300 False
     = None"
  by (simp add: analysis_eval proc_eval process_hung_def)

subsection \<open>Orchestration\<close>

lemma maybe_apply_never_raises:
  "maybe_apply_audio_normalization env base input cfg sc pm cache = Some (r, effs)
   \<Longrightarrow> \<exists>cmd. r = Inr cmd"
  by (auto simp: maybe_apply_audio_normalization_def split: if_splits option.splits sum.splits)

lemma maybe_apply_disabled:
  "\<not> audio_normalization_enabled (audio cfg) \<Longrightarrow>
   maybe_apply_audio_normalization env base input cfg sc pm cache = Some (Inr base, [])"
  by (simp add: maybe_apply_audio_normalization_def)

lemma maybe_apply_stream_copy:
  "sc \<Longrightarrow> maybe_apply_audio_normalization env base input cfg sc pm cache = Some (Inr base, [])"
  by (simp add: maybe_apply_audio_normalization_def)

lemma maybe_apply_unknown_method:
  "audio_normalization_method (audio cfg) \<notin> {''loudnorm'', ''replaygain''} \<Longrightarrow>
   maybe_apply_audio_normalization env base input cfg sc pm cache = Some (Inr base, [])"
  by (simp add: maybe_apply_audio_normalization_def normalization_try_block_def)

lemma maybe_apply_try_block_raises:
  "normalization_try_block env base input cfg pm cache = Some (Inl err, effs) \<Longrightarrow>
   \<exists>effs'. maybe_apply_audio_normalization env base input cfg sc pm cache = Some (Inr base, effs')"
  by (simp add: maybe_apply_audio_normalization_def)

lemma maybe_apply_loudnorm:
  assumes "audio_normalization_enabled (audio cfg)" and "\<not> sc"
      and "audio_normalization_method (audio cfg) = ''loudnorm''"
  shows "maybe_apply_audio_normalization env base input cfg sc None cache
     = (case analyze_loudnorm_two_pass env input (loudnorm_targets (audio cfg))
              (min (timeout_seconds (general cfg)) 300) cache of
          None \<Rightarrow> None
        | Some (Inl err, effs) \<Rightarrow> Some (Inr base, effs)
        | Some (Inr meas, effs) \<Rightarrow>
            Some (Inr (inject_audio_filter base
                         (build_loudnorm_pass2_filter (loudnorm_targets (audio cfg)) meas)),
                  effs))"
  using assms
  by (simp add: maybe_apply_audio_normalization_def normalization_try_block_def Let_def
      split: option.splits sum.splits prod.splits)

lemma maybe_apply_analysis_raises:
  assumes "audio_normalization_enabled (audio cfg)" and "\<not> sc"
      and "audio_normalization_method (audio cfg) = ''loudnorm''"
      and "analyze_loudnorm_two_pass env input (loudnorm_targets (audio cfg))
              (min (timeout_seconds (general cfg)) 300) cache = Some (Inl err, effs)"
  shows "maybe_apply_audio_normalization env base input cfg sc None cache = Some (Inr base, effs)"
  using assms by (simp add: maybe_apply_loudnorm)

lemma maybe_apply_changed_only_on_success:
  assumes "maybe_apply_audio_normalization env base input cfg sc pm cache = Some (Inr cmd, effs)"
      and "cmd \<noteq> base"
  shows "audio_normalization_enabled (audio cfg) \<and> \<not> sc
     \<and> ((audio_normalization_method (audio cfg) = ''replaygain''
          \<and> cmd = inject_audio_filter base build_replaygain_filter)
        \<or> (audio_normalization_method (audio cfg) = ''loudnorm''
          \<and> (\<exists>meas. (pm = Some meas
                      \<or> (pm = None
                         \<and> analyze_loudnorm_two_pass env input (loudnorm_targets (audio cfg))
                              (min (timeout_seconds (general cfg)) 300) cache
                            = Some (Inr meas, effs)))
                \<and> cmd = inject_audio_filter base
                           (build_loudnorm_pass2_filter (loudnorm_targets (audio cfg)) meas))))"
  using assms
  by (auto simp: maybe_apply_audio_normalization_def normalization_try_block_def Let_def
      split: if_splits option.splits sum.splits prod.splits)


text \<open>
  Claim C3. \<open>maybe_apply_audio_normalization\<close> never raises: whatever it returns is a
  command. It returns the base command unchanged when normalization is disabled, when the
  caller asked for stream copy, when the method is neither \<open>loudnorm\<close> nor \<open>replaygain\<close>,
  and when anything inside the \<open>try\<close> block raises, in particular when pass 1 fails (a
  non-zero exit code of the analysis process among the causes). A command other than the
  base command is returned only with normalization enabled and no stream copy, and is then
  the base command with the \<open>replaygain\<close> filter, or with the pass 2 filter built from
  precomputed or successfully analysed measurements, injected.
\<close>

theorem normalization_failure_returns_base_command:
  "(maybe_apply_audio_normalization env base input cfg sc pm cache = Some (r, effs)
      \<longrightarrow> (\<exists>cmd. r = Inr cmd))
   \<and> (\<not> audio_normalization_enabled (audio cfg)
      \<longrightarrow> maybe_apply_audio_normalization env base input cfg sc pm cache = Some (Inr base, []))
   \<and> (sc \<longrightarrow> maybe_apply_audio_normalization env base input cfg sc pm cache = Some (Inr base, []))
   \<and> (audio_normalization_method (audio cfg) \<notin> {''loudnorm'', ''replaygain''}
      \<longrightarrow> maybe_apply_audio_normalization env base input cfg sc pm cache = Some (Inr base, []))
   \<and> (normalization_try_block env base input cfg pm cache = Some (Inl err, effs)
      \<longrightarrow> (\<exists>effs'. maybe_apply_audio_normalization env base input cfg sc pm cache
                     = Some (Inr base, effs')))
   \<and> (audio_normalization_enabled (audio cfg) \<and> \<not> sc
        \<and> audio_normalization_method (audio cfg) = ''loudnorm''
        \<and> analyze_loudnorm_two_pass env input (loudnorm_targets (audio cfg))
              (min (timeout_seconds (general cfg)) 300) cache = Some (Inl err, effs)
      \<longrightarrow> maybe_apply_audio_normalization env base input cfg sc None cache = Some (Inr base, effs))
   \<and> (maybe_apply_audio_normalization env base input cfg sc pm cache = Some (Inr cmd, effs)
        \<and> cmd \<noteq> base
      \<longrightarrow> audio_normalization_enabled (audio cfg) \<and> \<not> sc
          \<and> ((audio_normalization_method (audio cfg) = ''replaygain''
               \<and> cmd = inject_audio_filter base build_replaygain_filter)
             \<or> (audio_normalization_method (audio cfg) = ''loudnorm''
               \<and> (\<exists>meas. (pm = Some meas
                           \<or> (pm = None
                              \<and> analyze_loudnorm_two_pass env input (loudnorm_targets (audio cfg))
                                   (min (timeout_seconds (general cfg)) 300) cache
                                 = Some (Inr meas, effs)))
                     \<and> cmd = inject_audio_filter base
                                (build_loudnorm_pass2_filter (loudnorm_targets (audio cfg)) meas)))))"
proof (intro conjI impI)
  show "\<exists>cmd. r = Inr cmd"
    if "maybe_apply_audio_normalization env base input cfg sc pm cache = Some (r, effs)"
    using that by (rule maybe_apply_never_raises)
  show "maybe_apply_audio_normalization env base input cfg sc pm cache = Some (Inr base, [])"
    if "\<not> audio_normalization_enabled (audio cfg)"
    using that by (rule maybe_apply_disabled)
  show "maybe_apply_audio_normalization env base input cfg sc pm cache = Some (Inr base, [])"
    if sc
    using that by (rule maybe_apply_stream_copy)
  show "maybe_apply_audio_normalization env base input cfg sc pm cache = Some (Inr base, [])"
    if "audio_normalization_method (audio cfg) \<notin> {''loudnorm'', ''replaygain''}"
    using that by (rule maybe_apply_unknown_method)
  show "\<exists>effs'. maybe_apply_audio_normalization env base input cfg sc pm cache
                     = Some (Inr base, effs')"
    if "normalization_try_block env base input cfg pm cache = Some (Inl err, effs)"
    using that by (rule maybe_apply_try_block_raises)
  show "maybe_apply_audio_normalization env base input cfg sc None cache = Some (Inr base, effs)"
    if "audio_normalization_enabled (audio cfg) \<and> \<not> sc
        \<and> audio_normalization_method (audio cfg) = ''loudnorm''
        \<and> analyze_loudnorm_two_pass env input (loudnorm_targets (audio cfg))
              (min (timeout_seconds (general cfg)) 300) cache = Some (Inl err, effs)"
    using that maybe_apply_analysis_raises by blast
next
  assume h: "maybe_apply_audio_normalization env base input cfg sc pm cache = Some (Inr cmd, effs)
        \<and> cmd \<noteq> base"
  from maybe_apply_changed_only_on_success [of env base input cfg sc pm cache cmd effs] h
  have *: "audio_normalization_enabled (audio cfg) \<and> \<not> sc
     \<and> ((audio_normalization_method (audio cfg) = ''replaygain''
          \<and> cmd = inject_audio_filter base build_replaygain_filter)
        \<or> (audio_normalization_method (audio cfg) = ''loudnorm''
          \<and> (\<exists>meas. (pm = Some meas
                      \<or> (pm = None
                         \<and> analyze_loudnorm_two_pass env input (loudnorm_targets (audio cfg))
                              (min (timeout_seconds (general cfg)) 300) cache
                            = Some (Inr meas, effs)))
                \<and> cmd = inject_audio_filter base
                           (build_loudnorm_pass2_filter (loudnorm_targets (audio cfg)) meas))))"
    by blast
  from * show "audio_normalization_enabled (audio cfg)" by blast
  from * show "\<not> sc" by blast
  from * show "(audio_normalization_method (audio cfg) = ''replaygain''
               \<and> cmd = inject_audio_filter base build_replaygain_filter)
             \<or> (audio_normalization_method (audio cfg) = ''loudnorm''
               \<and> (\<exists>meas. (pm = Some meas
                           \<or> (pm = None
                              \<and> analyze_loudnorm_two_pass env input (loudnorm_targets (audio cfg))
                                   (min (timeout_seconds (general cfg)) 300) cache
                                 = Some (Inr meas, effs)))
                     \<and> cmd = inject_audio_filter base
                                (build_loudnorm_pass2_filter (loudnorm_targets (audio cfg)) meas)))"
    by blast
qed

lemma example_cfg_targets: "loudnorm_targets (audio example_cfg) = example_targets"
  by (simp add: loudnorm_targets_def cfg_eval example_targets_def)

lemma example_cfg_timeout: "min (timeout_seconds (general example_cfg)) 300 = 300"
  by (simp add: cfg_eval)

lemma exit_1_run:
  "analyze_loudnorm_two_pass (example_env process_exit_1) ''in.wav'' example_targets 300 False
     = Some (Inl (RuntimeError
          ''ffmpeg loudnorm pass 1 failed (code 1): in.wav: No such file or directory''), [Wait])"
  by (simp add: analysis_eval proc_eval num_eval)

lemma slow_run:
  "analyze_loudnorm_two_pass (example_env process_slow) ''in.wav'' example_targets 300 False
     = Some (Inl (RuntimeError ''ffmpeg loudnorm pass 1 timeout after 300s''),
             [Terminate, WaitTimeout 5, Kill, Wait])"
  by (simp add: analysis_eval proc_eval num_eval)

lemma ok_run:
  "analyze_loudnorm_two_pass (example_env process_ok) ''in.wav'' example_targets 300 False
     = Some (Inr example_measurements, [Wait])"
  by (simp add: analysis_eval proc_eval)

lemma example_cfg_flags:
  "audio_normalization_enabled (audio example_cfg)
   \<and> audio_normalization_method (audio example_cfg) = ''loudnorm''"
  by (simp add: cfg_eval)

text \<open>
  The analysis process exits with code 1: pass 1 raises, the orchestrator returns the
  five-token base command. With stream copy requested it returns it without any analysis.
\<close>

theorem analysis_exit_code_1_returns_base_command:
  "audio_normalization_enabled (audio example_cfg)
   \<and> audio_normalization_method (audio example_cfg) = ''loudnorm''
   \<and> analyze_loudnorm_two_pass (example_env process_exit_1) ''in.wav''
        (loudnorm_targets (audio example_cfg)) (min (timeout_seconds (general example_cfg)) 300)
        False
      = Some (Inl (RuntimeError
          ''ffmpeg loudnorm pass 1 failed (code 1): in.wav: No such file or directory''), [Wait])
   \<and> maybe_apply_audio_normalization (example_env process_exit_1)
        [''ffmpeg'', ''-y'', ''-i'', ''in.wav'', ''out.mp3''] ''in.wav'' example_cfg False None False
      = Some (Inr [''ffmpeg'', ''-y'', ''-i'', ''in.wav'', ''out.mp3''], [Wait])
   \<and> maybe_apply_audio_normalization (example_env process_exit_1)
        [''ffmpeg'', ''-y'', ''-i'', ''in.wav'', ''out.mp3''] ''in.wav'' example_cfg True None False
      = Some (Inr [''ffmpeg'', ''-y'', ''-i'', ''in.wav'', ''out.mp3''], [])"
  using normalization_failure_returns_base_command
    [where env = "example_env process_exit_1"
       and base = "[''ffmpeg'', ''-y'', ''-i'', ''in.wav'', ''out.mp3'']"
       and input = "''in.wav''" and cfg = example_cfg and sc = False and pm = None
       and cache = False and effs = "[Wait]"
       and err = "RuntimeError
          ''ffmpeg loudnorm pass 1 failed (code 1): in.wav: No such file or directory''"]
    normalization_failure_returns_base_command
    [where env = "example_env process_exit_1"
       and base = "[''ffmpeg'', ''-y'', ''-i'', ''in.wav'', ''out.mp3'']"
       and input = "''in.wav''" and cfg = example_cfg and sc = True and pm = None
       and cache = False]
  by (simp add: example_cfg_targets example_cfg_timeout exit_1_run example_cfg_flags)

text \<open>
  Claim C10. With the \<open>loudnorm\<close> method and no precomputed measurements, the orchestrator
  runs pass 1 with the timeout \<open>min(timeout_seconds, 300)\<close>, which is at most 300: its
  result is that of the analysis under this timeout, and every configured timeout of 300
  or more gives the same result as a configured timeout of exactly 300.
\<close>

theorem analysis_timeout_is_min_of_configured_and_300:
  "(audio_normalization_enabled (audio cfg) \<and> \<not> sc
      \<and> audio_normalization_method (audio cfg) = ''loudnorm''
    \<longrightarrow> maybe_apply_audio_normalization env base input cfg sc None cache
       = (case analyze_loudnorm_two_pass env input (loudnorm_targets (audio cfg))
                (min (timeout_seconds (general cfg)) 300) cache of
            None \<Rightarrow> None
          | Some (Inl err, effs) \<Rightarrow> Some (Inr base, effs)
          | Some (Inr meas, effs) \<Rightarrow>
              Some (Inr (inject_audio_filter base
                           (build_loudnorm_pass2_filter (loudnorm_targets (audio cfg)) meas)),
                    effs)))
   \<and> min (timeout_seconds (general cfg)) 300 \<le> 300
   \<and> (300 \<le> timeout_seconds (general cfg)
    \<longrightarrow> maybe_apply_audio_normalization env base input cfg sc pm cache
       = maybe_apply_audio_normalization env base input
           (cfg\<lparr>general := (general cfg)\<lparr>timeout_seconds := 300\<rparr>\<rparr>) sc pm cache)"
proof (intro conjI impI)
  show "maybe_apply_audio_normalization env base input cfg sc None cache
       = (case analyze_loudnorm_two_pass env input (loudnorm_targets (audio cfg))
                (min (timeout_seconds (general cfg)) 300) cache of
            None \<Rightarrow> None
          | Some (Inl err, effs) \<Rightarrow> Some (Inr base, effs)
          | Some (Inr meas, effs) \<Rightarrow>
              Some (Inr (inject_audio_filter base
                           (build_loudnorm_pass2_filter (loudnorm_targets (audio cfg)) meas)),
                    effs))"
    if "audio_normalization_enabled (audio cfg) \<and> \<not> sc
      \<and> audio_normalization_method (audio cfg) = ''loudnorm''"
    using that maybe_apply_loudnorm by blast
  show "min (timeout_seconds (general cfg)) 300 \<le> 300" by simp
  show "maybe_apply_audio_normalization env base input cfg sc pm cache
       = maybe_apply_audio_normalization env base input
           (cfg\<lparr>general := (general cfg)\<lparr>timeout_seconds := 300\<rparr>\<rparr>) sc pm cache"
    if big: "300 \<le> timeout_seconds (general cfg)"
  proof -
    have "normalization_try_block env base input
            (cfg\<lparr>general := (general cfg)\<lparr>timeout_seconds := 300\<rparr>\<rparr>) pm cache
          = normalization_try_block env base input cfg pm cache"
      using big by (cases pm) (simp_all add: normalization_try_block_def Let_def min_def)
    then show ?thesis
      by (simp add: maybe_apply_audio_normalization_def)
  qed
qed

text \<open>
  With 3600 seconds configured the analysis is stopped at the line read after 301 seconds,
  as with 300 seconds configured.
\<close>

theorem configured_3600_seconds_analysis_stopped_after_300:
  "timeout_seconds (general example_cfg) = 3600
   \<and> audio_normalization_enabled (audio example_cfg)
   \<and> audio_normalization_method (audio example_cfg) = ''loudnorm''
   \<and> maybe_apply_audio_normalization (example_env process_slow)
        [''ffmpeg'', ''-y'', ''-i'', ''in.wav'', ''out.mp3''] ''in.wav'' example_cfg False None False
      = Some (Inr [''ffmpeg'', ''-y'', ''-i'', ''in.wav'', ''out.mp3''],
              [Terminate, WaitTimeout 5, Kill, Wait])
   \<and> maybe_apply_audio_normalization (example_env process_slow)
        [''ffmpeg'', ''-y'', ''-i'', ''in.wav'', ''out.mp3''] ''in.wav''
        (example_cfg\<lparr>general := (general example_cfg)\<lparr>timeout_seconds := 300\<rparr>\<rparr>) False None False
      = Some (Inr [''ffmpeg'', ''-y'', ''-i'', ''in.wav'', ''out.mp3''],
              [Terminate, WaitTimeout 5, Kill, Wait])"
proof -
  note inst = analysis_timeout_is_min_of_configured_and_300
    [where env = "example_env process_slow"
       and base = "[''ffmpeg'', ''-y'', ''-i'', ''in.wav'', ''out.mp3'']"
       and input = "''in.wav''" and cfg = example_cfg and sc = False and pm = None
       and cache = False]
  have t: "timeout_seconds (general example_cfg) = 3600"
    by (simp add: cfg_eval)
  have run: "maybe_apply_audio_normalization (example_env process_slow)
        [''ffmpeg'', ''-y'', ''-i'', ''in.wav'', ''out.mp3''] ''in.wav'' example_cfg False None False
      = Some (Inr [''ffmpeg'', ''-y'', ''-i'', ''in.wav'', ''out.mp3''],
              [Terminate, WaitTimeout 5, Kill, Wait])"
    using inst example_cfg_flags
    by (simp add: example_cfg_targets example_cfg_timeout slow_run)
  have same: "maybe_apply_audio_normalization (example_env process_slow)
        [''ffmpeg'', ''-y'', ''-i'', ''in.wav'', ''out.mp3''] ''in.wav''
        (example_cfg\<lparr>general := (general example_cfg)\<lparr>timeout_seconds := 300\<rparr>\<rparr>) False None False
      = maybe_apply_audio_normalization (example_env process_slow)
        [''ffmpeg'', ''-y'', ''-i'', ''in.wav'', ''out.mp3''] ''in.wav'' example_cfg False None False"
    using inst t by simp
  show ?thesis
    using t example_cfg_flags run same by simp
qed

end
